theory Spec2Isabelle
  imports Main "HOL-Library.Sublist"
begin

section \<open>Values shared by the application modules\<close>

text \<open>
  The repository holds two variants of the application module: the one loaded by
  \<^verbatim>\<open>server.js\<close> and the serverless one. They differ in the reaction to a missing
  environment variable, in the list of allowed origins, and in the origin check.
\<close>

datatype variant = Server | Serverless

text \<open>\<^verbatim>\<open>process.env\<close>: a name is unset (\<^verbatim>\<open>undefined\<close>) or bound to a string.\<close>

type_synonym env = "string \<rightharpoonup> string"

text \<open>Truthiness of a value that is a string or \<^verbatim>\<open>undefined\<close>: the empty string is falsy.\<close>

definition truthy :: "string option \<Rightarrow> bool" where
  "truthy v = (case v of None \<Rightarrow> False | Some s \<Rightarrow> s \<noteq> [])"

text \<open>\<^verbatim>\<open>Array.prototype.join\<close> on an array of strings.\<close>

fun join :: "string \<Rightarrow> string list \<Rightarrow> string" where
  "join sep [] = []"
| "join sep [x] = x"
| "join sep (x # y # ys) = x @ sep @ join sep (y # ys)"

text \<open>\<^verbatim>\<open>String.prototype.endsWith\<close>.\<close>

definition endsWith :: "string \<Rightarrow> string \<Rightarrow> bool" where
  "endsWith s suf = (length suf \<le> length s \<and> drop (length s - length suf) s = suf)"

text \<open>A thrown JavaScript error, with the properties the application reads.\<close>

record err =
  err_name :: string
  err_message :: string
  err_status :: "int option"
  err_stack :: string

section \<open>Validation of the required environment variables\<close>

definition requiredEnvVars :: "string list" where
  "requiredEnvVars = [''JWT_SECRET'', ''MONGODB_URI'']"

definition missingEnvVars :: "env \<Rightarrow> string list" where
  "missingEnvVars e = filter (\<lambda>envVar. \<not> truthy (e envVar)) requiredEnvVars"

text \<open>
  How the process ends before it serves: the module exits, the module throws while it
  loads, or a promise is rejected with nothing handling the rejection, which ends the
  process.
\<close>

datatype abort = Exit int | Thrown string | UnhandledRejection err

text \<open>
  The check at the top of the module, before \<^verbatim>\<open>express()\<close> is called: the message
  written to the console and the way the module load is aborted, or nothing.
\<close>

definition check_env :: "variant \<Rightarrow> env \<Rightarrow> (string \<times> abort) option" where
  "check_env v e =
     (if length (missingEnvVars e) > 0 then
        Some (''Missing required environment variables: '' @ join '', '' (missingEnvVars e),
              case v of
                Server \<Rightarrow> Exit 1
              | Serverless \<Rightarrow>
                  Thrown (''Missing required environment variables: '' @ join '', '' (missingEnvVars e)))
      else None)"

section \<open>Origin check\<close>

definition allowedOrigins :: "variant \<Rightarrow> string list" where
  "allowedOrigins v =
     (case v of
        Server \<Rightarrow>
          [''http://localhost:3000'', ''http://localhost:5173'', ''https://delibup.netlify.app'',
           ''capacitor://localhost'', ''http://localhost'', ''https://localhost'',
           ''https://dellibup.onrender.com'', ''https://delibup.netlify.app'']
      | Serverless \<Rightarrow>
          [''http://localhost:3000'', ''http://localhost:5173'',
           ''https://capstonedelibup-o7sl.onrender.com'', ''capacitor://localhost'',
           ''http://localhost'', ''https://localhost'', ''https://dellibup.onrender.com''])"

text \<open>
  \<^verbatim>\<open>isAllowedOrigin\<close> of the serverless variant. The URL parser of the runtime is a
  parameter: \<open>hostname origin\<close> is \<open>None\<close> when \<^verbatim>\<open>new URL(origin)\<close> throws and the
  \<^verbatim>\<open>hostname\<close> property of the parsed URL otherwise.
\<close>

definition isAllowedOrigin :: "(string \<Rightarrow> string option) \<Rightarrow> string option \<Rightarrow> bool" where
  "isAllowedOrigin hostname origin =
     (case origin of
        None \<Rightarrow> True
      | Some og \<Rightarrow>
          if og = [] then True
          else if og \<in> set (allowedOrigins Serverless) then True
          else (case hostname og of
                  Some h \<Rightarrow> if endsWith h ''.vercel.app'' then True else False
                | None \<Rightarrow> False))"

definition corsError :: "string \<Rightarrow> err" where
  "corsError st = \<lparr>err_name = ''Error'', err_message = ''Not allowed by CORS'',
                   err_status = None, err_stack = st\<rparr>"

text \<open>
  The \<^verbatim>\<open>origin\<close> function handed to \<^verbatim>\<open>cors\<close>: \<open>Inr True\<close> is \<^verbatim>\<open>callback(null, true)\<close>,
  \<open>Inl e\<close> is \<^verbatim>\<open>callback(e)\<close>. \<open>st\<close> is the stack trace the runtime attaches to the new
  error.
\<close>

definition origin_callback ::
  "variant \<Rightarrow> (string \<Rightarrow> string option) \<Rightarrow> string \<Rightarrow> string option \<Rightarrow> err + bool" where
  "origin_callback v hostname st origin =
     (case v of
        Server \<Rightarrow>
          (case origin of
             None \<Rightarrow> Inr True
           | Some og \<Rightarrow>
               if og = [] then Inr True
               else if og \<in> set (allowedOrigins Server) then Inr True
               else Inl (corsError st))
      | Serverless \<Rightarrow>
          if isAllowedOrigin hostname origin then Inr True
          else Inl (corsError st))"

section \<open>Requests, responses and log records\<close>

datatype http_method = GET | HEAD | POST | PUT | PATCH | DELETE | OPTIONS

datatype jval = JStr string | JNum int

type_synonym jobj = "(string \<times> jval) list"

text \<open>
  \<^verbatim>\<open>res.json\<close> of an object literal: a property whose value is \<^verbatim>\<open>undefined\<close> is left
  out of the serialised body.
\<close>

definition json_obj :: "(string \<times> jval option) list \<Rightarrow> jobj" where
  "json_obj kvs = List.map_filter (\<lambda>(k, v). map_option (Pair k) v) kvs"

text \<open>
  A response as a middleware gives it to the runtime to send: the status and the JSON
  body. The runtime transmits such a response without its body when the request is a
  \<^verbatim>\<open>HEAD\<close> request or the status allows none (an informational status, 204, 205 and
  304); the record is what was given to it.
\<close>

record response =
  res_status :: int
  res_body :: jobj

text \<open>
  What the route layer (an external collaborator) does with a request that reaches it:
  it ends the response itself, or it hands an error to \<^verbatim>\<open>next\<close> (or throws it) without
  having started a response, or no route matches. Records that the handlers write to the
  log themselves are not part of the model.
\<close>

datatype route_result = Responded response | Raised err | Unmatched

text \<open>
  A request as it arrives, together with what the runtime and the external collaborators
  yield for it: the arrival time in milliseconds, the value \<^verbatim>\<open>crypto.randomUUID()\<close>
  returns, the stack trace attached to an error created while it is handled, the error
  each body parser raises (if any), and the behaviour of the route layer. The framework
  rewrites \<^verbatim>\<open>req.url\<close> while a middleware mounted at a path handles the request, by
  removing the mount path from its front: \<open>in_mount_url\<close> gives the rewritten URL for a
  mount path, and \<open>in_route_url\<close> is \<^verbatim>\<open>req.url\<close> as the routers leave it when the route
  layer ends the response. \<open>in_external\<close> is the live entry the external cache store
  returns for the key of the request when it is asked (\<open>None\<close>: a miss).
\<close>

record incoming =
  in_method :: http_method
  in_url :: string
  in_origin :: "string option"
  in_ip :: string
  in_time :: int
  in_uuid :: string
  in_stack :: string
  in_json_error :: "err option"
  in_urlencoded_error :: "err option"
  in_route :: route_result
  in_mount_url :: "string \<Rightarrow> string"
  in_route_url :: string
  in_external :: "response option"

text \<open>
  The request object while it travels through the middleware: \<open>req_url\<close> is
  \<^verbatim>\<open>req.url\<close>, \<open>req_id\<close> is \<^verbatim>\<open>req.id\<close> (\<open>None\<close> is \<^verbatim>\<open>undefined\<close>),
  \<open>req_finish_listener\<close> records that \<^verbatim>\<open>requestLogger\<close> has registered its listener on
  the response, \<open>req_delay\<close> is the time the request was held back by the delay stage.
\<close>

record req =
  req_in :: incoming
  req_url :: string
  req_id :: "string option"
  req_finish_listener :: bool
  req_delay :: int

datatype log_entry =
    Info string
  | InfoRequest http_method string int "string option"
  | WarnWith string err
  | ErrorText string
  | ErrorWith string err
  | ErrorRecord string string http_method string "string option"

text \<open>A template literal prints \<^verbatim>\<open>undefined\<close> for an undefined value.\<close>

definition show_id :: "string option \<Rightarrow> string" where
  "show_id i = (case i of None \<Rightarrow> ''undefined'' | Some s \<Rightarrow> s)"

section \<open>Admission control\<close>

text \<open>\<^verbatim>\<open>parseInt(x) || d\<close>: \<open>None\<close> is \<^verbatim>\<open>NaN\<close>; \<^verbatim>\<open>NaN\<close> and \<open>0\<close> are falsy.\<close>

definition or_default :: "int option \<Rightarrow> int \<Rightarrow> int" where
  "or_default p d = (case p of None \<Rightarrow> d | Some n \<Rightarrow> if n = 0 then d else n)"

text \<open>
  The configuration a module instance runs under: the variant, the environment, and the
  two functions of the runtime the module calls on strings (\<^verbatim>\<open>parseInt\<close>, with \<open>None\<close>
  for \<^verbatim>\<open>NaN\<close>, and the host name of \<^verbatim>\<open>new URL\<close>).
\<close>

record config =
  cfg_variant :: variant
  cfg_env :: env
  cfg_parseInt :: "string option \<Rightarrow> int option"
  cfg_hostname :: "string \<Rightarrow> string option"

definition limiter_windowMs :: "config \<Rightarrow> int" where
  "limiter_windowMs cfg =
     or_default (cfg_parseInt cfg (cfg_env cfg ''RATE_LIMIT_WINDOW_MS'')) (15 * 60 * 1000)"

definition limiter_max :: "config \<Rightarrow> int" where
  "limiter_max cfg =
     or_default (cfg_parseInt cfg (cfg_env cfg ''RATE_LIMIT_MAX_REQUESTS'')) 100"

definition limiter_message :: jobj where
  "limiter_message = [(''error'', JStr ''Too many requests, please try again later.'')]"

definition speed_windowMs :: int where
  "speed_windowMs = 15 * 60 * 1000"

definition speed_delayAfter :: int where
  "speed_delayAfter = 50"

definition speed_delayMs :: int where
  "speed_delayMs = 500"

record bucket =
  windowStart :: int
  hits :: int

text \<open>
  Modelled from the spec: the packages \<^verbatim>\<open>express-rate-limit\<close> and \<^verbatim>\<open>express-slow-down\<close>
  that implement the two stages are not among the sources; only their configuration is.
  The spec's rate bucket is created lazily on the first request from a key and reset when
  the window elapses; the window is fixed, starting at the bucket's first request.
\<close>

definition hit :: "int \<Rightarrow> int \<Rightarrow> bucket option \<Rightarrow> bucket" where
  "hit window now b =
     (case b of
        None \<Rightarrow> \<lparr>windowStart = now, hits = 1\<rparr>
      | Some b' \<Rightarrow>
          if now < windowStart b' + window then b'\<lparr>hits := hits b' + 1\<rparr>
          else \<lparr>windowStart = now, hits = 1\<rparr>)"

text \<open>
  Modelled from the spec: the delay stage of \<^verbatim>\<open>express-slow-down\<close>. Once the count
  exceeds the threshold, a request is held back by the increment times the number of
  requests over the threshold.
\<close>

definition speed_delay :: "int \<Rightarrow> int" where
  "speed_delay n = (if n > speed_delayAfter then (n - speed_delayAfter) * speed_delayMs else 0)"

text \<open>An entry of the response cache: the response and the time it expires.\<close>

record cache_entry =
  ce_value :: response
  ce_expiresAt :: int

text \<open>
  The state of the process that outlives a request: the buckets of the two admission
  stages, the log, the \<^verbatim>\<open>isOpen\<close> flag of the cache client (\<open>None\<close>: there is no
  client), and the in-process store of the response cache.
\<close>

record world =
  limiter_store :: "string \<rightharpoonup> bucket"
  speed_store :: "string \<rightharpoonup> bucket"
  logs :: "log_entry list"
  redis_isOpen :: "bool option"
  in_process_store :: "(http_method \<times> string) \<rightharpoonup> cache_entry"

definition log :: "log_entry \<Rightarrow> world \<Rightarrow> world" where
  "log l w = w\<lparr>logs := logs w @ [l]\<rparr>"

text \<open>What a middleware does: \<^verbatim>\<open>next()\<close>, \<^verbatim>\<open>next(err)\<close>, or end the response.\<close>

datatype flow = Next | NextErr err | Done response

text \<open>
  Modelled from the spec: the ceiling stage. The key is \<^verbatim>\<open>req.ip\<close> (the
  \<^verbatim>\<open>keyGenerator\<close> of the source); once the count of the window exceeds the configured
  maximum the request is rejected with status 429 and the configured message.
\<close>

definition limiter_bucket :: "config \<Rightarrow> req \<Rightarrow> world \<Rightarrow> bucket" where
  "limiter_bucket cfg r w =
     hit (limiter_windowMs cfg) (in_time (req_in r)) (limiter_store w (in_ip (req_in r)))"

definition limiter :: "config \<Rightarrow> req \<Rightarrow> world \<Rightarrow> flow \<times> req \<times> world" where
  "limiter cfg r w =
     (let b = limiter_bucket cfg r w;
          w' = w\<lparr>limiter_store := (limiter_store w)(in_ip (req_in r) \<mapsto> b)\<rparr>
      in if hits b > limiter_max cfg
         then (Done \<lparr>res_status = 429, res_body = limiter_message\<rparr>, r, w')
         else (Next, r, w'))"

text \<open>
  Modelled from the spec: the delay stage, an independent counter over its own window,
  keyed by the same client identity; it never rejects.
\<close>

definition speed_bucket :: "req \<Rightarrow> world \<Rightarrow> bucket" where
  "speed_bucket r w = hit speed_windowMs (in_time (req_in r)) (speed_store w (in_ip (req_in r)))"

definition speedLimiter :: "req \<Rightarrow> world \<Rightarrow> flow \<times> req \<times> world" where
  "speedLimiter r w =
     (let b = speed_bucket r w;
          w' = w\<lparr>speed_store := (speed_store w)(in_ip (req_in r) \<mapsto> b)\<rparr>
      in (Next, r\<lparr>req_delay := req_delay r + speed_delay (hits b)\<rparr>, w'))"

section \<open>Mount paths\<close>

definition lower :: "char \<Rightarrow> char" where
  "lower c = (let n = (of_char c :: nat) in if 65 \<le> n \<and> n \<le> 90 then char_of (n + 32) else c)"

definition pathname :: "string \<Rightarrow> string" where
  "pathname url = takeWhile (\<lambda>c. c \<noteq> CHR ''?'') url"

text \<open>
  The framework's test whether a request falls under a mount path: the path of the URL
  starts with the mount path, compared without regard to case, and the mount path ends
  at the end of the path or at a slash.
\<close>

definition mounted :: "string option \<Rightarrow> string \<Rightarrow> bool" where
  "mounted mp url =
     (case mp of
        None \<Rightarrow> True
      | Some pre \<Rightarrow>
          (let p = pathname url
           in map lower (take (length pre) p) = pre \<and>
              (length p = length pre \<or> (length pre < length p \<and> p ! length pre = CHR ''/''))))"

section \<open>Response cache\<close>

text \<open>
  Modelled from the spec: the module \<^verbatim>\<open>utils/cacheConfig\<close>, which exports the cache
  client and the \<^verbatim>\<open>cache\<close> middleware, is not among the sources; the source mounts
  \<^verbatim>\<open>cache('10 minutes')\<close> in front of the product routes. The spec describes a cache of
  safe read requests, keyed by method and URL, with two stores: an external shared one
  and an in-process fallback used when the external one is unavailable. A lookup yields a
  value or a miss; an entry is created on a miss, with the given time to live, and is
  never served past its expiry; a miss never blocks or fails the request.
\<close>

datatype backend = ExternalStore | InProcess

definition cache_backend :: "config \<Rightarrow> world \<Rightarrow> backend" where
  "cache_backend cfg w =
     (if cfg_env cfg ''USE_REDIS'' = Some ''true'' \<and> redis_isOpen w = Some True
      then ExternalStore else InProcess)"

definition cache_ttl :: int where
  "cache_ttl = 10 * 60 * 1000"

definition cacheable :: "incoming \<Rightarrow> bool" where
  "cacheable i = (in_method i = GET \<and> mounted (Some ''/api/products'') (in_url i))"

text \<open>
  Modelled from the spec: the live entry of the in-process store for a request, if there
  is one.
\<close>

definition in_process_get :: "world \<Rightarrow> incoming \<Rightarrow> response option" where
  "in_process_get w i =
     (case in_process_store w (in_method i, in_url i) of
        None \<Rightarrow> None
      | Some en \<Rightarrow> if in_time i < ce_expiresAt en then Some (ce_value en) else None)"

definition cache_get :: "config \<Rightarrow> incoming \<Rightarrow> world \<Rightarrow> response option" where
  "cache_get cfg i w =
     (case cache_backend cfg w of
        ExternalStore \<Rightarrow> in_external i
      | InProcess \<Rightarrow> in_process_get w i)"

text \<open>
  Modelled from the spec: the entry created on a miss. An entry given to the external
  store leaves the process;
  what that store returns later is the input \<open>in_external\<close>.
\<close>

definition cache_set :: "config \<Rightarrow> incoming \<Rightarrow> response \<Rightarrow> world \<Rightarrow> world" where
  "cache_set cfg i res w =
     (case cache_backend cfg w of
        ExternalStore \<Rightarrow> w
      | InProcess \<Rightarrow>
          w\<lparr>in_process_store :=
              (in_process_store w)((in_method i, in_url i) \<mapsto>
                 \<lparr>ce_value = res, ce_expiresAt = in_time i + cache_ttl\<rparr>)\<rparr>)"

section \<open>The middleware stack\<close>

text \<open>
  The middleware in the order of the \<^verbatim>\<open>app.use\<close> calls of the module. \<open>Routes\<close> stands
  for everything registered between the delay stage and the error middleware (the
  documentation pages, the health and root handlers, the response cache in front of the
  product routes, and the routers): it is one dispatch stage here, and what the handlers
  and routers do with a request is given by \<open>in_route\<close>.
\<close>

datatype stage =
    Helmet | Compression | Cors | JsonParser | UrlencodedParser | RequestLogger | RequestId
  | Limiter | SpeedLimiter | Routes | ErrorLogger | ErrorHandler

definition app_stack :: "stage list" where
  "app_stack = [Helmet, Compression, Cors, JsonParser, UrlencodedParser, RequestLogger,
                RequestId, Limiter, SpeedLimiter, Routes, ErrorLogger, ErrorHandler]"

text \<open>The path a middleware is mounted at (\<open>None\<close>: \<^verbatim>\<open>app.use\<close> without a path).\<close>

fun mount_path :: "stage \<Rightarrow> string option" where
  "mount_path Limiter = Some ''/api''"
| "mount_path SpeedLimiter = Some ''/api''"
| "mount_path _ = None"

text \<open>Error-handling middleware are the functions of four parameters.\<close>

fun is_error_middleware :: "stage \<Rightarrow> bool" where
  "is_error_middleware ErrorLogger = True"
| "is_error_middleware ErrorHandler = True"
| "is_error_middleware _ = False"

text \<open>
  The \<^verbatim>\<open>cors\<close> middleware around the origin function: an error of the origin function
  goes to \<^verbatim>\<open>next\<close>; an allowed preflight request (\<^verbatim>\<open>OPTIONS\<close>) is answered at once
  with status 204 and no body; every other allowed request continues.
\<close>

definition cors :: "config \<Rightarrow> req \<Rightarrow> world \<Rightarrow> flow \<times> req \<times> world" where
  "cors cfg r w =
     (case origin_callback (cfg_variant cfg) (cfg_hostname cfg) (in_stack (req_in r))
             (in_origin (req_in r)) of
        Inl e \<Rightarrow> (NextErr e, r, w)
      | Inr allow \<Rightarrow>
          if \<not> allow then (Next, r, w)
          else if in_method (req_in r) = OPTIONS
          then (Done \<lparr>res_status = 204, res_body = []\<rparr>, r, w)
          else (Next, r, w))"

definition body_parser :: "err option \<Rightarrow> req \<Rightarrow> world \<Rightarrow> flow \<times> req \<times> world" where
  "body_parser failure r w = (case failure of None \<Rightarrow> (Next, r, w) | Some e \<Rightarrow> (NextErr e, r, w))"

text \<open>
  \<^verbatim>\<open>requestLogger\<close> registers a listener for the end of the response and continues;
  the record is written by \<open>on_finish\<close> when the response has been sent, with
  \<^verbatim>\<open>req.url\<close> as it is then. The duration field of the record is not modelled.
\<close>

definition requestLogger :: "req \<Rightarrow> world \<Rightarrow> flow \<times> req \<times> world" where
  "requestLogger r w = (Next, r\<lparr>req_finish_listener := True\<rparr>, w)"

definition on_finish :: "response \<Rightarrow> req \<Rightarrow> world \<Rightarrow> world" where
  "on_finish res r w =
     (if req_finish_listener r
      then log (InfoRequest (in_method (req_in r)) (req_url r) (res_status res) (req_id r)) w
      else w)"

definition requestId :: "req \<Rightarrow> world \<Rightarrow> flow \<times> req \<times> world" where
  "requestId r w = (Next, r\<lparr>req_id := Some (in_uuid (req_in r))\<rparr>, w)"

text \<open>
  The handlers and routers: when they end the response, \<^verbatim>\<open>req.url\<close> stays as the
  routers have rewritten it.
\<close>

definition route_layer :: "req \<Rightarrow> world \<Rightarrow> flow \<times> req \<times> world" where
  "route_layer r w =
     (case in_route (req_in r) of
        Responded res \<Rightarrow> (Done res, r\<lparr>req_url := in_route_url (req_in r)\<rparr>, w)
      | Raised e \<Rightarrow> (NextErr e, r, w)
      | Unmatched \<Rightarrow> (Next, r, w))"

text \<open>
  Modelled from the spec: the dispatch with the response cache in front of the product
  routes. A cacheable request with a live entry is answered from the cache, inside the
  middleware mounted at \<^verbatim>\<open>/api/products\<close>; on a miss the request goes on to the routes,
  and the response they send is stored.
\<close>

definition routes :: "config \<Rightarrow> req \<Rightarrow> world \<Rightarrow> flow \<times> req \<times> world" where
  "routes cfg r w =
     (if cacheable (req_in r) then
        (case cache_get cfg (req_in r) w of
           Some res \<Rightarrow> (Done res, r\<lparr>req_url := in_mount_url (req_in r) ''/api/products''\<rparr>, w)
         | None \<Rightarrow>
             (case route_layer r w of
                (Done res, r', w') \<Rightarrow> (Done res, r', cache_set cfg (req_in r) res w')
              | other \<Rightarrow> other))
      else route_layer r w)"

definition errorLogger :: "err \<Rightarrow> req \<Rightarrow> world \<Rightarrow> flow \<times> req \<times> world" where
  "errorLogger e r w =
     (NextErr e, r,
      log (ErrorRecord (err_message e) (err_stack e) (in_method (req_in r)) (req_url r)
             (req_id r)) w)"

text \<open>\<^verbatim>\<open>err.status || 500\<close>: an undefined status and the status 0 are falsy.\<close>

definition status_or_500 :: "int option \<Rightarrow> int" where
  "status_or_500 s = (case s of None \<Rightarrow> 500 | Some n \<Rightarrow> if n = 0 then 500 else n)"

text \<open>The response the terminal error handler asks to send for an error.\<close>

definition error_response :: "config \<Rightarrow> err \<Rightarrow> req \<Rightarrow> response" where
  "error_response cfg e r =
     (if err_name e = ''ValidationError'' then
        \<lparr>res_status = 400,
         res_body = json_obj [(''error'', Some (JStr ''Validation Error'')),
                              (''details'', Some (JStr (err_message e))),
                              (''requestId'', map_option JStr (req_id r))]\<rparr>
      else if err_name e = ''UnauthorizedError'' then
        \<lparr>res_status = 401,
         res_body = json_obj [(''error'', Some (JStr ''Authentication Error'')),
                              (''details'', Some (JStr (err_message e))),
                              (''requestId'', map_option JStr (req_id r))]\<rparr>
      else
        \<lparr>res_status = status_or_500 (err_status e),
         res_body = json_obj [(''error'', Some (JStr ''Internal Server Error'')),
                              (''message'',
                               Some (JStr (if cfg_env cfg ''NODE_ENV'' = Some ''production''
                                           then ''Something went wrong''
                                           else err_message e))),
                              (''requestId'', map_option JStr (req_id r))]\<rparr>)"

text \<open>
  \<^verbatim>\<open>res.status(s).json(body)\<close>: for a status outside 100..999 the call throws a
  \<^verbatim>\<open>RangeError\<close>, which has no status property (its message, which names the status,
  is cut to its fixed part here); otherwise the response is given to the runtime.
\<close>

definition res_send :: "string \<Rightarrow> response \<Rightarrow> err + response" where
  "res_send st res =
     (if res_status res < 100 \<or> 999 < res_status res then
        Inl \<lparr>err_name = ''RangeError'', err_message = ''Invalid status code'',
             err_status = None, err_stack = st\<rparr>
      else Inr res)"

text \<open>
  The terminal error handler: it logs the error and sends the response. When sending
  throws, the framework hands the thrown error to \<^verbatim>\<open>next\<close>.
\<close>

definition errorHandler :: "config \<Rightarrow> err \<Rightarrow> req \<Rightarrow> world \<Rightarrow> flow \<times> req \<times> world" where
  "errorHandler cfg e r w =
     (case res_send (in_stack (req_in r)) (error_response cfg e r) of
        Inr res \<Rightarrow> Done res
      | Inl thrown \<Rightarrow> NextErr thrown,
      r,
      log (ErrorText (''[Error] ['' @ show_id (req_id r) @ ''] '' @ err_stack e)) w)"

fun run_middleware :: "config \<Rightarrow> stage \<Rightarrow> req \<Rightarrow> world \<Rightarrow> flow \<times> req \<times> world" where
  "run_middleware cfg Helmet r w = (Next, r, w)"
| "run_middleware cfg Compression r w = (Next, r, w)"
| "run_middleware cfg Cors r w = cors cfg r w"
| "run_middleware cfg JsonParser r w = body_parser (in_json_error (req_in r)) r w"
| "run_middleware cfg UrlencodedParser r w = body_parser (in_urlencoded_error (req_in r)) r w"
| "run_middleware cfg RequestLogger r w = requestLogger r w"
| "run_middleware cfg RequestId r w = requestId r w"
| "run_middleware cfg Limiter r w = limiter cfg r w"
| "run_middleware cfg SpeedLimiter r w = speedLimiter r w"
| "run_middleware cfg Routes r w = routes cfg r w"
| "run_middleware cfg ErrorLogger r w = (Next, r, w)"
| "run_middleware cfg ErrorHandler r w = (Next, r, w)"

fun run_error_middleware ::
  "config \<Rightarrow> stage \<Rightarrow> err \<Rightarrow> req \<Rightarrow> world \<Rightarrow> flow \<times> req \<times> world" where
  "run_error_middleware cfg ErrorLogger e r w = errorLogger e r w"
| "run_error_middleware cfg ErrorHandler e r w = errorHandler cfg e r w"
| "run_error_middleware cfg s e r w = (NextErr e, r, w)"

text \<open>
  The framework's answer when the stack is exhausted: 404 when no error is pending;
  otherwise the status of the error when that is a client or server error status, and
  500 when it is not or the error has none. Neither body is a JSON object: it is an HTML
  page, and the body of the response is empty here.
\<close>

definition finalhandler :: "err option \<Rightarrow> response" where
  "finalhandler pending =
     (case pending of
        None \<Rightarrow> \<lparr>res_status = 404, res_body = []\<rparr>
      | Some e \<Rightarrow>
          \<lparr>res_status = (case err_status e of
                           None \<Rightarrow> 500
                         | Some s \<Rightarrow> if 400 \<le> s \<and> s \<le> 599 then s else 500),
           res_body = []\<rparr>)"

text \<open>
  \<^verbatim>\<open>req.url\<close> while a middleware mounted at a path handles the request.
\<close>

definition enter_mount :: "string option \<Rightarrow> req \<Rightarrow> req" where
  "enter_mount mp r =
     (case mp of None \<Rightarrow> r | Some pre \<Rightarrow> r\<lparr>req_url := in_mount_url (req_in r) pre\<rparr>)"

text \<open>
  The framework's walk through the stack. A middleware is skipped when the request is
  not under its mount path; while an error is pending only error-handling middleware
  run, and they are skipped while none is pending. \<^verbatim>\<open>req.url\<close> is rewritten for a mounted
  middleware and restored when the middleware calls \<^verbatim>\<open>next\<close>; it stays rewritten when
  the middleware ends the response. The last argument collects the middleware that ran.
\<close>

fun run_stack ::
  "config \<Rightarrow> stage list \<Rightarrow> err option \<Rightarrow> req \<Rightarrow> world \<Rightarrow> stage list
     \<Rightarrow> response \<times> req \<times> world \<times> stage list" where
  "run_stack cfg [] pending r w vis = (finalhandler pending, r, w, vis)"
| "run_stack cfg (s # ss) pending r w vis =
     (if \<not> mounted (mount_path s) (in_url (req_in r)) then run_stack cfg ss pending r w vis
      else
        (case pending of
           None \<Rightarrow>
             if is_error_middleware s then run_stack cfg ss pending r w vis
             else
               (case run_middleware cfg s (enter_mount (mount_path s) r) w of
                  (Next, r', w') \<Rightarrow>
                    run_stack cfg ss None (r'\<lparr>req_url := req_url r\<rparr>) w' (vis @ [s])
                | (NextErr e, r', w') \<Rightarrow>
                    run_stack cfg ss (Some e) (r'\<lparr>req_url := req_url r\<rparr>) w' (vis @ [s])
                | (Done res, r', w') \<Rightarrow> (res, r', w', vis @ [s]))
         | Some e \<Rightarrow>
             if \<not> is_error_middleware s then run_stack cfg ss pending r w vis
             else
               (case run_error_middleware cfg s e (enter_mount (mount_path s) r) w of
                  (Next, r', w') \<Rightarrow>
                    run_stack cfg ss None (r'\<lparr>req_url := req_url r\<rparr>) w' (vis @ [s])
                | (NextErr e', r', w') \<Rightarrow>
                    run_stack cfg ss (Some e') (r'\<lparr>req_url := req_url r\<rparr>) w' (vis @ [s])
                | (Done res, r', w') \<Rightarrow> (res, r', w', vis @ [s]))))"

record outcome =
  out_response :: response
  out_req :: req
  out_world :: world
  out_visited :: "stage list"

definition new_req :: "incoming \<Rightarrow> req" where
  "new_req i = \<lparr>req_in = i, req_url = in_url i, req_id = None, req_finish_listener = False,
                req_delay = 0\<rparr>"

text \<open>One request through the application.\<close>

definition serve :: "config \<Rightarrow> incoming \<Rightarrow> world \<Rightarrow> outcome" where
  "serve cfg i w =
     (case run_stack cfg app_stack None (new_req i) w [] of
        (res, r, w', vis) \<Rightarrow>
          \<lparr>out_response = res, out_req = r, out_world = on_finish res r w', out_visited = vis\<rparr>)"

text \<open>The request identifier of a response body (\<open>None\<close>: the body has no such property).\<close>

definition body_requestId :: "response \<Rightarrow> jval option" where
  "body_requestId res = map_of (res_body res) ''requestId''"

definition body_error :: "response \<Rightarrow> jval option" where
  "body_error res = map_of (res_body res) ''error''"

section \<open>Loading the application module\<close>

text \<open>
  What the runtime and the collaborators yield while the module loads: the client
  exported by the cache configuration (\<open>None\<close> when the export is falsy, otherwise its
  \<^verbatim>\<open>isOpen\<close> flag), the outcome of \<^verbatim>\<open>redisClient.connect()\<close> (\<open>None\<close>: resolved), the
  \<^verbatim>\<open>readyState\<close> of the store connection, and the outcomes of \<^verbatim>\<open>mongoose.connect\<close> and
  of dropping the indexes of the cart collection.
\<close>

record runtime =
  rt_redisClient :: "bool option"
  rt_redis_connect :: "err option"
  rt_mongo_readyState :: nat
  rt_mongo_connect :: "err option"
  rt_drop_indexes :: "err option"

text \<open>
  The best-effort initialisation of the cache connection: the records it writes and the
  \<^verbatim>\<open>isOpen\<close> flag of the client afterwards.
\<close>

definition redis_init :: "config \<Rightarrow> runtime \<Rightarrow> world \<Rightarrow> world" where
  "redis_init cfg rt w =
     (if cfg_env cfg ''USE_REDIS'' = Some ''true'' \<and> rt_redisClient rt \<noteq> None then
        (case rt_redisClient rt of
           Some False \<Rightarrow>
             (case rt_redis_connect rt of
                None \<Rightarrow> (log (Info ''Redis connected successfully'') w)\<lparr>redis_isOpen := Some True\<rparr>
              | Some e \<Rightarrow>
                  (log (Info ''Continuing with in-memory cache'')
                     (log (ErrorWith ''Redis connection error:'' e) w))\<lparr>redis_isOpen := Some False\<rparr>)
         | other \<Rightarrow> w\<lparr>redis_isOpen := other\<rparr>)
      else (log (Info ''Running with in-memory cache (Redis disabled)'') w)
             \<lparr>redis_isOpen := rt_redisClient rt\<rparr>)"

text \<open>The two marks that open the store connection messages, as UTF-8 bytes.\<close>

definition check_mark :: string where
  "check_mark = [CHR 0xE2, CHR 0x9C, CHR 0x85]"

definition cross_mark :: string where
  "cross_mark = [CHR 0xE2, CHR 0x9D, CHR 0x8C]"

text \<open>
  The store connection, opened when the connection is in state 0 (disconnected), with
  the records of the promise chain on \<^verbatim>\<open>mongoose.connect\<close>. A failure is logged. The
  serverless variant then rethrows it inside the \<^verbatim>\<open>catch\<close> callback: the promise
  \<^verbatim>\<open>mongoConnecting\<close> is rejected and the module never awaits or handles it. The first
  component of the result is that unhandled rejection, if there is one.
\<close>

definition mongo_init :: "config \<Rightarrow> runtime \<Rightarrow> world \<Rightarrow> err option \<times> world" where
  "mongo_init cfg rt w =
     (if rt_mongo_readyState rt = 0 then
        (case rt_mongo_connect rt of
           None \<Rightarrow> (None, log (Info (check_mark @ '' Successfully connected to MongoDB'')) w)
         | Some e \<Rightarrow>
             (case cfg_variant cfg of Server \<Rightarrow> None | Serverless \<Rightarrow> Some e,
              log (ErrorWith (cross_mark @ '' Error connecting to MongoDB:'') e) w))
      else (None, w))"

text \<open>
  The listener registered with \<^verbatim>\<open>mongoose.connection.once('open', ...)\<close>, which runs
  when the store connection opens; only the server variant writes the first record. A
  failure of dropping the indexes is logged and nothing else happens.
\<close>

definition on_mongo_open :: "config \<Rightarrow> runtime \<Rightarrow> world \<Rightarrow> world" where
  "on_mongo_open cfg rt w =
     (let w1 = (case cfg_variant cfg of
                  Server \<Rightarrow> log (Info ''MongoDB connection established successfully'') w
                | Serverless \<Rightarrow> w)
      in case rt_drop_indexes rt of
           None \<Rightarrow> log (Info ''Successfully dropped all indexes from cart collection'') w1
         | Some e \<Rightarrow> log (ErrorWith ''Error dropping indexes:'' e) w1)"

record app =
  app_cfg :: config
  app_world :: world

definition empty_world :: world where
  "empty_world = \<lparr>limiter_store = Map.empty, speed_store = Map.empty, logs = [],
                   redis_isOpen = None, in_process_store = Map.empty\<rparr>"

text \<open>
  The module from its load until the two connection attempts have settled. The check of
  the environment comes first; only when it passes is the application constructed and
  exported. The world of the application holds the records of the two connection
  attempts, those of the cache connection first; the records of the listener above are
  written later, when the store connection opens. An unhandled rejection of the store
  connection ends the process, after the message of the failure has been logged.
\<close>

definition startup :: "config \<Rightarrow> runtime \<Rightarrow> (string \<times> abort) + app" where
  "startup cfg rt =
     (case check_env (cfg_variant cfg) (cfg_env cfg) of
        Some a \<Rightarrow> Inl a
      | None \<Rightarrow>
          (case mongo_init cfg rt (redis_init cfg rt empty_world) of
             (None, w) \<Rightarrow> Inr \<lparr>app_cfg = cfg, app_world = w\<rparr>
           | (Some e, w) \<Rightarrow>
               Inl (cross_mark @ '' Error connecting to MongoDB:'', UnhandledRejection e)))"

text \<open>
  A request is served by the exported application; there is none after the process has
  ended.
\<close>

definition handle :: "(string \<times> abort) + app \<Rightarrow> incoming \<Rightarrow> outcome option" where
  "handle boot i =
     (case boot of
        Inl a \<Rightarrow> None
      | Inr a \<Rightarrow> Some (serve (app_cfg a) i (app_world a)))"

section \<open>Graceful shutdown\<close>

text \<open>
  \<^verbatim>\<open>gracefulShutdown\<close> of \<^verbatim>\<open>server.js\<close> is an asynchronous function registered for
  \<^verbatim>\<open>SIGTERM\<close> and \<^verbatim>\<open>SIGINT\<close>. Every signal starts an invocation; an invocation runs
  until it awaits the promise of \<^verbatim>\<open>redisClient.quit()\<close> or of
  \<^verbatim>\<open>mongoose.connection.close()\<close> and resumes when that promise settles. The trace
  records, in order, the log records written, the calls made on the two connections and
  the exit of the process.
\<close>

datatype call = RedisQuit | MongoClose

datatype event = Logged log_entry | Called call | Exited int

text \<open>Where an invocation is suspended, or that it has run to its end.\<close>

datatype pc = AwaitQuit | AwaitClose | Ended

text \<open>
  The process while it shuts down: the environment, whether \<^verbatim>\<open>redisClient\<close> is truthy,
  the \<^verbatim>\<open>readyState\<close> of the store connection as the invocations read it, one entry per
  invocation, the trace, and the exit status once \<^verbatim>\<open>process.exit\<close> has been called.
  The state of the store connection is an input that the steps do not change: the process
  exits as soon as a call of \<^verbatim>\<open>close\<close> has settled, so no invocation reads it afterwards.
\<close>

record process =
  p_env :: env
  p_redisClient :: bool
  p_readyState :: nat
  p_tasks :: "pc list"
  p_trace :: "event list"
  p_exit :: "int option"

definition emit :: "event \<Rightarrow> process \<Rightarrow> process" where
  "emit ev p = p\<lparr>p_trace := p_trace p @ [ev]\<rparr>"

definition process_exit :: "int \<Rightarrow> process \<Rightarrow> process" where
  "process_exit code p = (emit (Exited code) p)\<lparr>p_exit := Some code\<rparr>"

text \<open>The part of invocation \<open>i\<close> from the test of \<^verbatim>\<open>readyState\<close> on.\<close>

definition close_store :: "nat \<Rightarrow> process \<Rightarrow> process" where
  "close_store i p =
     (if p_readyState p \<noteq> 0
      then (emit (Called MongoClose) p)\<lparr>p_tasks := (p_tasks p)[i := AwaitClose]\<rparr>
      else process_exit 0 (p\<lparr>p_tasks := (p_tasks p)[i := Ended]\<rparr>))"

text \<open>A signal arrives: a new invocation starts and runs to its first \<^verbatim>\<open>await\<close>.\<close>

definition gracefulShutdown :: "process \<Rightarrow> process" where
  "gracefulShutdown p =
     (let i = length (p_tasks p);
          p1 = emit (Logged (Info ''Received shutdown signal, starting graceful shutdown...'')) p
      in if p_env p ''USE_REDIS'' = Some ''true'' \<and> p_redisClient p
         then (emit (Called RedisQuit) p1)\<lparr>p_tasks := p_tasks p1 @ [AwaitQuit]\<rparr>
         else close_store i (p1\<lparr>p_tasks := p_tasks p1 @ [Ended]\<rparr>))"

text \<open>
  The promise invocation \<open>i\<close> awaits settles (\<open>None\<close>: it resolves, \<open>Some e\<close>: it rejects
  with \<open>e\<close>), and the invocation runs on to its next \<^verbatim>\<open>await\<close> or to the exit.
\<close>

definition settle :: "nat \<Rightarrow> err option \<Rightarrow> process \<Rightarrow> process" where
  "settle i result p =
     (if i < length (p_tasks p) then
        (case p_tasks p ! i of
           AwaitQuit \<Rightarrow>
             close_store i
               (emit (Logged (case result of
                                None \<Rightarrow> Info ''Redis connection closed''
                              | Some e \<Rightarrow> WarnWith ''Redis quit error (ignored):'' e)) p)
         | AwaitClose \<Rightarrow>
             (case result of
                None \<Rightarrow>
                  process_exit 0
                    (emit (Logged (Info ''MongoDB connection closed''))
                       (p\<lparr>p_tasks := (p_tasks p)[i := Ended]\<rparr>))
              | Some e \<Rightarrow>
                  process_exit 1
                    (emit (Logged (ErrorWith ''Error during shutdown:'' e))
                       (p\<lparr>p_tasks := (p_tasks p)[i := Ended]\<rparr>)))
         | Ended \<Rightarrow> p)
      else p)"

datatype step = Signal | Settle nat "err option"

text \<open>Nothing runs once the process has exited.\<close>

definition step :: "step \<Rightarrow> process \<Rightarrow> process" where
  "step st p =
     (if p_exit p \<noteq> None then p
      else (case st of Signal \<Rightarrow> gracefulShutdown p | Settle i result \<Rightarrow> settle i result p))"

fun run :: "step list \<Rightarrow> process \<Rightarrow> process" where
  "run [] p = p"
| "run (st # sts) p = run sts (step st p)"

section \<open>Notions used in the properties\<close>

text \<open>The request object after the context assignment.\<close>

definition ctx_req :: "incoming \<Rightarrow> req" where
  "ctx_req i = \<lparr>req_in = i, req_url = in_url i, req_id = Some (in_uuid i),
                req_finish_listener = True, req_delay = 0\<rparr>"

text \<open>
  A request under the rate-limited prefix that gets as far as the admission control: its
  origin is allowed, it is no preflight request, and both body parsers accept it.
\<close>

definition reaches_admission :: "config \<Rightarrow> incoming \<Rightarrow> bool" where
  "reaches_admission cfg i =
     (origin_callback (cfg_variant cfg) (cfg_hostname cfg) (in_stack i) (in_origin i) = Inr True
      \<and> in_method i \<noteq> OPTIONS \<and> in_json_error i = None \<and> in_urlencoded_error i = None
      \<and> mounted (Some ''/api'') (in_url i))"

text \<open>
  The answer to a request whose error reaches the terminal handler: the response of the
  handler as it is sent, or the page of the framework when sending throws.
\<close>

definition error_answer :: "config \<Rightarrow> err \<Rightarrow> req \<Rightarrow> response" where
  "error_answer cfg e r =
     (case res_send (in_stack (req_in r)) (error_response cfg e r) of
        Inr res \<Rightarrow> res
      | Inl thrown \<Rightarrow> finalhandler (Some thrown))"

text \<open>The status the terminal handler chooses for an error.\<close>

definition handler_status :: "err \<Rightarrow> int" where
  "handler_status e =
     (if err_name e = ''ValidationError'' then 400
      else if err_name e = ''UnauthorizedError'' then 401
      else status_or_500 (err_status e))"

text \<open>The entry the response cache answers a request with, if it does.\<close>

definition cached :: "config \<Rightarrow> incoming \<Rightarrow> world \<Rightarrow> response option" where
  "cached cfg i w = (if cacheable i then cache_get cfg i w else None)"

text \<open>The two stores after a request has passed both admission stages.\<close>

definition admitted :: "config \<Rightarrow> req \<Rightarrow> world \<Rightarrow> world" where
  "admitted cfg r w =
     w\<lparr>limiter_store := (limiter_store w)(in_ip (req_in r) \<mapsto> limiter_bucket cfg r w),
       speed_store := (speed_store w)(in_ip (req_in r) \<mapsto> speed_bucket r w)\<rparr>"



text \<open>
  The stages the specification names, the stage each middleware belongs to, and the order
  in which the specification lists the stages.
\<close>

datatype stage_kind =
    OriginCheck | SecurityHeaders | CompressionStage | BodyParsing | ContextAssignment
  | AdmissionControl | Dispatch | ErrorHandling

fun kind_of :: "stage \<Rightarrow> stage_kind" where
  "kind_of Helmet = SecurityHeaders"
| "kind_of Compression = CompressionStage"
| "kind_of Cors = OriginCheck"
| "kind_of JsonParser = BodyParsing"
| "kind_of UrlencodedParser = BodyParsing"
| "kind_of RequestLogger = ContextAssignment"
| "kind_of RequestId = ContextAssignment"
| "kind_of Limiter = AdmissionControl"
| "kind_of SpeedLimiter = AdmissionControl"
| "kind_of Routes = Dispatch"
| "kind_of ErrorLogger = ErrorHandling"
| "kind_of ErrorHandler = ErrorHandling"

definition spec_order :: "stage_kind list" where
  "spec_order = [OriginCheck, SecurityHeaders, CompressionStage, BodyParsing, ContextAssignment,
                 AdmissionControl, Dispatch]"

section \<open>Sample inputs\<close>

text \<open>A configuration with nothing set, so that every default applies.\<close>

definition sample_cfg :: config where
  "sample_cfg = \<lparr>cfg_variant = Server, cfg_env = Map.empty, cfg_parseInt = Map.empty,
                  cfg_hostname = Map.empty\<rparr>"

text \<open>A configuration with \<^verbatim>\<open>RATE_LIMIT_MAX_REQUESTS=1\<close>.\<close>

definition tight_cfg :: config where
  "tight_cfg = \<lparr>cfg_variant = Server, cfg_env = [''RATE_LIMIT_MAX_REQUESTS'' \<mapsto> ''1''],
                 cfg_parseInt = [Some ''1'' \<mapsto> 1], cfg_hostname = Map.empty\<rparr>"

text \<open>
  A request without origin header whose route handler raises a validation error. Inside
  the middleware mounted at \<^verbatim>\<open>/api\<close> its URL is \<^verbatim>\<open>/products?page=2\<close>, inside the one
  mounted at \<^verbatim>\<open>/api/products\<close> it is \<^verbatim>\<open>/?page=2\<close>.
\<close>

definition sample_request :: incoming where
  "sample_request =
     \<lparr>in_method = GET, in_url = ''/api/products?page=2'', in_origin = None,
      in_ip = ''203.0.113.7'', in_time = 0, in_uuid = ''6f1c2d1e-0000-4000-8000-000000000001'',
      in_stack = ''Error: Not allowed by CORS'', in_json_error = None,
      in_urlencoded_error = None,
      in_route = Raised \<lparr>err_name = ''ValidationError'', err_message = ''price is required'',
                         err_status = None, err_stack = ''ValidationError: price is required''\<rparr>,
      in_mount_url = (\<lambda>pre. if pre = ''/api'' then ''/products?page=2'' else ''/?page=2''),
      in_route_url = ''/?page=2'', in_external = None\<rparr>"

text \<open>The same request sent by a page of an origin that is not allowed.\<close>

definition foreign_request :: incoming where
  "foreign_request = sample_request\<lparr>in_origin := Some ''https://shop.example''\<rparr>"

text \<open>A process with both connections open, and the failure of a call on a closed client.\<close>

definition sample_process :: process where
  "sample_process = \<lparr>p_env = [''USE_REDIS'' \<mapsto> ''true''], p_redisClient = True, p_readyState = 1,
                      p_tasks = [], p_trace = [], p_exit = None\<rparr>"

definition sample_failure :: err where
  "sample_failure = \<lparr>err_name = ''Error'', err_message = ''The client is closed'',
                      err_status = None, err_stack = ''Error: The client is closed''\<rparr>"






section \<open>Properties of the environment check\<close>

lemma missing_nonempty:
  "e ''JWT_SECRET'' = None \<or> e ''MONGODB_URI'' = None \<Longrightarrow> missingEnvVars e \<noteq> []"
  by (auto simp: missingEnvVars_def requiredEnvVars_def truthy_def)

text \<open>
  Claim C10. When \<^verbatim>\<open>JWT_SECRET\<close> or \<^verbatim>\<open>MONGODB_URI\<close> is unset, loading the module aborts
  before the application is constructed: the server variant exits with status 1 (which
  is not 0), the serverless variant throws, and no request is ever served.
\<close>

theorem startup_aborts_without_required_env:
  assumes "cfg_env cfg ''JWT_SECRET'' = None \<or> cfg_env cfg ''MONGODB_URI'' = None"
  shows "(\<exists>line. startup cfg rt =
            Inl (line, case cfg_variant cfg of Server \<Rightarrow> Exit 1 | Serverless \<Rightarrow> Thrown line))
         \<and> handle (startup cfg rt) i = None"
proof -
  have m: "missingEnvVars (cfg_env cfg) \<noteq> []"
    using assms by (rule missing_nonempty)
  then have "\<exists>line. startup cfg rt =
           Inl (line, case cfg_variant cfg of Server \<Rightarrow> Exit 1 | Serverless \<Rightarrow> Thrown line)"
    by (cases "cfg_variant cfg") (simp_all add: startup_def check_env_def)
  moreover from m have "handle (startup cfg rt) i = None"
    by (simp add: handle_def startup_def check_env_def)
  ultimately show ?thesis by simp
qed

theorem startup_aborts_without_required_env_witness:
  "startup \<lparr>cfg_variant = Server, cfg_env = [''MONGODB_URI'' \<mapsto> ''mongodb://db/app''],
            cfg_parseInt = Map.empty, cfg_hostname = Map.empty\<rparr>
     \<lparr>rt_redisClient = None, rt_redis_connect = None, rt_mongo_readyState = 0,
      rt_mongo_connect = None, rt_drop_indexes = None\<rparr>
   = Inl (''Missing required environment variables: JWT_SECRET'', Exit 1)"
  using startup_aborts_without_required_env
    [of "\<lparr>cfg_variant = Server, cfg_env = [''MONGODB_URI'' \<mapsto> ''mongodb://db/app''],
          cfg_parseInt = Map.empty, cfg_hostname = Map.empty\<rparr>"
        "\<lparr>rt_redisClient = None, rt_redis_connect = None, rt_mongo_readyState = 0,
          rt_mongo_connect = None, rt_drop_indexes = None\<rparr>"]
  by (simp add: startup_def check_env_def missingEnvVars_def requiredEnvVars_def truthy_def)

section \<open>Properties of the origin check\<close>

text \<open>
  The claim C4 as it is written fails for an origin header that is present and empty:
  the empty string is falsy, so the first test of the check allows it, although it is
  neither in the list nor has a host under the wildcard suffix.
\<close>

theorem empty_origin_allowed:
  "isAllowedOrigin Map.empty (Some []) \<and> [] \<notin> set (allowedOrigins Serverless)
   \<and> origin_callback Server Map.empty [] (Some []) = Inr True
   \<and> [] \<notin> set (allowedOrigins Server)"
  by (simp add: isAllowedOrigin_def origin_callback_def allowedOrigins_def)

text \<open>
  Claim C4, amended. The origin check of the serverless variant allows exactly: an absent
  or empty origin, an origin in the allow-list, and an origin whose host name ends with
  the wildcard suffix \<^verbatim>\<open>.vercel.app\<close>; every other origin is denied with the error
  \<^verbatim>\<open>Not allowed by CORS\<close>. The server variant has no wildcard suffix and allows exactly an
  absent or empty origin and the origins of its allow-list. The decision is a function of
  the origin, the list and the URL parser alone.
\<close>

theorem origin_decision:
  "isAllowedOrigin hostname origin =
     (origin = None \<or> origin = Some [] \<or>
      (\<exists>og. origin = Some og \<and>
            (og \<in> set (allowedOrigins Serverless) \<or>
             (\<exists>h. hostname og = Some h \<and> endsWith h ''.vercel.app''))))
   \<and> origin_callback Serverless hostname st origin =
       (if isAllowedOrigin hostname origin then Inr True else Inl (corsError st))
   \<and> origin_callback Server hostname st origin =
       (if origin = None \<or> origin = Some [] \<or>
           (\<exists>og. origin = Some og \<and> og \<in> set (allowedOrigins Server))
        then Inr True else Inl (corsError st))"
  by (auto simp: isAllowedOrigin_def origin_callback_def split: option.splits)

section \<open>The walk through the stack, case by case\<close>

lemma ctx_req_sel:
  "req_in (ctx_req i) = i" "req_url (ctx_req i) = in_url i" "req_id (ctx_req i) = Some (in_uuid i)"
  "req_finish_listener (ctx_req i) = True" "req_delay (ctx_req i) = 0"
  by (simp_all add: ctx_req_def)

lemma new_req_sel:
  "req_in (new_req i) = i" "req_url (new_req i) = in_url i" "req_id (new_req i) = None"
  "req_finish_listener (new_req i) = False" "req_delay (new_req i) = 0"
  by (simp_all add: new_req_def)

lemma req_url_same [simp]:
  "r\<lparr>req_url := req_url r\<rparr> = r"
  "new_req i\<lparr>req_url := in_url i\<rparr> = new_req i"
  "ctx_req i\<lparr>req_url := in_url i\<rparr> = ctx_req i"
  by (simp_all add: new_req_def ctx_req_def)

lemmas stack_defs = app_stack_def new_req_def mounted_def body_parser_def requestLogger_def
  requestId_def errorLogger_def errorHandler_def enter_mount_def

lemma origin_callback_cases:
  "origin_callback v h st og = Inr True \<or> origin_callback v h st og = Inl (corsError st)"
  by (auto simp: origin_callback_def split: variant.splits option.splits)

lemma run_error:
  "run_stack cfg [ErrorLogger, ErrorHandler] (Some e) r w vis =
     (error_answer cfg e r, r,
      log (ErrorText (''[Error] ['' @ show_id (req_id r) @ ''] '' @ err_stack e))
        (log (ErrorRecord (err_message e) (err_stack e) (in_method (req_in r)) (req_url r)
                (req_id r)) w),
      vis @ [ErrorLogger, ErrorHandler])"
  by (simp add: errorLogger_def errorHandler_def enter_mount_def mounted_def error_answer_def
      split: sum.splits)

lemma run_unmatched:
  "run_stack cfg [ErrorLogger, ErrorHandler] None r w vis = (finalhandler None, r, w, vis)"
  by (simp add: mounted_def)

lemma skip_to_error:
  "run_stack cfg [JsonParser, UrlencodedParser, RequestLogger, RequestId, Limiter, SpeedLimiter,
                  Routes, ErrorLogger, ErrorHandler] (Some e) r w vis =
   run_stack cfg [ErrorLogger, ErrorHandler] (Some e) r w vis"
  "run_stack cfg [UrlencodedParser, RequestLogger, RequestId, Limiter, SpeedLimiter,
                  Routes, ErrorLogger, ErrorHandler] (Some e) r w vis =
   run_stack cfg [ErrorLogger, ErrorHandler] (Some e) r w vis"
  "run_stack cfg [RequestLogger, RequestId, Limiter, SpeedLimiter,
                  Routes, ErrorLogger, ErrorHandler] (Some e) r w vis =
   run_stack cfg [ErrorLogger, ErrorHandler] (Some e) r w vis"
  by (simp_all add: run_stack.simps(2)[where s=JsonParser] run_stack.simps(2)[where s=UrlencodedParser]
        run_stack.simps(2)[where s=RequestLogger] run_stack.simps(2)[where s=RequestId]
        run_stack.simps(2)[where s=Limiter] run_stack.simps(2)[where s=SpeedLimiter]
        run_stack.simps(2)[where s=Routes]
      del: run_stack.simps)

lemma run_denied:
  assumes "origin_callback (cfg_variant cfg) (cfg_hostname cfg) (in_stack i) (in_origin i) = Inl e"
  shows "run_stack cfg app_stack None (new_req i) w [] =
      (error_answer cfg e (new_req i), new_req i,
       log (ErrorText (''[Error] ['' @ show_id None @ ''] '' @ err_stack e))
        (log (ErrorRecord (err_message e) (err_stack e) (in_method i) (in_url i) None) w),
       [Helmet, Compression, Cors, ErrorLogger, ErrorHandler])"
  using assms
  by (simp add: app_stack_def cors_def mounted_def enter_mount_def new_req_sel skip_to_error run_error
        run_stack.simps(2)[where s=Helmet] run_stack.simps(2)[where s=Compression]
        run_stack.simps(2)[where s=Cors]
      del: run_stack.simps)

lemma run_preflight:
  assumes "origin_callback (cfg_variant cfg) (cfg_hostname cfg) (in_stack i) (in_origin i) = Inr True"
    and "in_method i = OPTIONS"
  shows "run_stack cfg app_stack None (new_req i) w [] =
      (\<lparr>res_status = 204, res_body = []\<rparr>, new_req i, w, [Helmet, Compression, Cors])"
  using assms
  by (simp add: app_stack_def cors_def mounted_def enter_mount_def new_req_sel
        run_stack.simps(2)[where s=Helmet] run_stack.simps(2)[where s=Compression]
        run_stack.simps(2)[where s=Cors]
      del: run_stack.simps)

lemma run_json_error:
  assumes "origin_callback (cfg_variant cfg) (cfg_hostname cfg) (in_stack i) (in_origin i) = Inr True"
    and "in_method i \<noteq> OPTIONS" and "in_json_error i = Some e"
  shows "run_stack cfg app_stack None (new_req i) w [] =
      (error_answer cfg e (new_req i), new_req i,
       log (ErrorText (''[Error] ['' @ show_id None @ ''] '' @ err_stack e))
        (log (ErrorRecord (err_message e) (err_stack e) (in_method i) (in_url i) None) w),
       [Helmet, Compression, Cors, JsonParser, ErrorLogger, ErrorHandler])"
  using assms
  by (simp add: app_stack_def cors_def mounted_def enter_mount_def new_req_sel skip_to_error run_error
        body_parser_def
        run_stack.simps(2)[where s=Helmet] run_stack.simps(2)[where s=Compression]
        run_stack.simps(2)[where s=Cors] run_stack.simps(2)[where s=JsonParser]
      del: run_stack.simps)

lemma run_urlencoded_error:
  assumes "origin_callback (cfg_variant cfg) (cfg_hostname cfg) (in_stack i) (in_origin i) = Inr True"
    and "in_method i \<noteq> OPTIONS" and "in_json_error i = None" and "in_urlencoded_error i = Some e"
  shows "run_stack cfg app_stack None (new_req i) w [] =
      (error_answer cfg e (new_req i), new_req i,
       log (ErrorText (''[Error] ['' @ show_id None @ ''] '' @ err_stack e))
        (log (ErrorRecord (err_message e) (err_stack e) (in_method i) (in_url i) None) w),
       [Helmet, Compression, Cors, JsonParser, UrlencodedParser, ErrorLogger, ErrorHandler])"
  using assms
  by (simp add: app_stack_def cors_def mounted_def enter_mount_def new_req_sel skip_to_error run_error
        body_parser_def
        run_stack.simps(2)[where s=Helmet] run_stack.simps(2)[where s=Compression]
        run_stack.simps(2)[where s=Cors] run_stack.simps(2)[where s=JsonParser]
        run_stack.simps(2)[where s=UrlencodedParser]
      del: run_stack.simps)

lemma run_context:
  assumes "origin_callback (cfg_variant cfg) (cfg_hostname cfg) (in_stack i) (in_origin i) = Inr True"
    and "in_method i \<noteq> OPTIONS" and "in_json_error i = None" and "in_urlencoded_error i = None"
  shows "run_stack cfg app_stack None (new_req i) w [] =
         run_stack cfg [Limiter, SpeedLimiter, Routes, ErrorLogger, ErrorHandler] None (ctx_req i) w
           [Helmet, Compression, Cors, JsonParser, UrlencodedParser, RequestLogger, RequestId]"
  using assms
  by (simp add: app_stack_def new_req_def body_parser_def requestLogger_def requestId_def
        cors_def ctx_req_def mounted_def enter_mount_def
        run_stack.simps(2)[where s=Helmet] run_stack.simps(2)[where s=Compression]
        run_stack.simps(2)[where s=Cors] run_stack.simps(2)[where s=JsonParser]
        run_stack.simps(2)[where s=UrlencodedParser] run_stack.simps(2)[where s=RequestLogger]
        run_stack.simps(2)[where s=RequestId]
      del: run_stack.simps)

lemma limiter_eq:
  "limiter cfg r w =
     (if hits (limiter_bucket cfg r w) > limiter_max cfg
      then Done \<lparr>res_status = 429, res_body = limiter_message\<rparr> else Next,
      r, w\<lparr>limiter_store := (limiter_store w)(in_ip (req_in r) \<mapsto> limiter_bucket cfg r w)\<rparr>)"
  by (simp add: limiter_def Let_def)

lemma speedLimiter_eq:
  "speedLimiter r w =
     (Next, r\<lparr>req_delay := req_delay r + speed_delay (hits (speed_bucket r w))\<rparr>,
      w\<lparr>speed_store := (speed_store w)(in_ip (req_in r) \<mapsto> speed_bucket r w)\<rparr>)"
  by (simp add: speedLimiter_def Let_def)

lemma routes_eq:
  "routes cfg r w =
     (case cached cfg (req_in r) w of
        Some res \<Rightarrow> (Done res, r\<lparr>req_url := in_mount_url (req_in r) ''/api/products''\<rparr>, w)
      | None \<Rightarrow>
          (case in_route (req_in r) of
             Responded res \<Rightarrow>
               (Done res, r\<lparr>req_url := in_route_url (req_in r)\<rparr>,
                if cacheable (req_in r) then cache_set cfg (req_in r) res w else w)
           | Raised e \<Rightarrow> (NextErr e, r, w)
           | Unmatched \<Rightarrow> (Next, r, w)))"
  by (simp add: routes_def route_layer_def cached_def split: option.splits route_result.splits)

lemma run_routes:
  "run_stack cfg [Routes, ErrorLogger, ErrorHandler] None r w vis =
     (case cached cfg (req_in r) w of
        Some res \<Rightarrow>
          (res, r\<lparr>req_url := in_mount_url (req_in r) ''/api/products''\<rparr>, w, vis @ [Routes])
      | None \<Rightarrow>
          (case in_route (req_in r) of
             Responded res \<Rightarrow>
               (res, r\<lparr>req_url := in_route_url (req_in r)\<rparr>,
                if cacheable (req_in r) then cache_set cfg (req_in r) res w else w,
                vis @ [Routes])
           | Raised e \<Rightarrow>
               (error_answer cfg e r, r,
                log (ErrorText (''[Error] ['' @ show_id (req_id r) @ ''] '' @ err_stack e))
                  (log (ErrorRecord (err_message e) (err_stack e) (in_method (req_in r))
                          (req_url r) (req_id r)) w),
                vis @ [Routes, ErrorLogger, ErrorHandler])
           | Unmatched \<Rightarrow> (\<lparr>res_status = 404, res_body = []\<rparr>, r, w, vis @ [Routes])))"
  by (simp add: routes_eq run_error run_unmatched mounted_def enter_mount_def finalhandler_def
        run_stack.simps(2)[where s=Routes]
      split: option.splits route_result.splits del: run_stack.simps)

lemma bucket_url:
  "limiter_bucket cfg (r\<lparr>req_url := u\<rparr>) w = limiter_bucket cfg r w"
  "speed_bucket (r\<lparr>req_url := u\<rparr>) w = speed_bucket r w"
  by (simp_all add: limiter_bucket_def speed_bucket_def)

lemma run_admission_outside:
  assumes "\<not> mounted (Some ''/api'') (in_url (req_in r))"
  shows "run_stack cfg [Limiter, SpeedLimiter, Routes, ErrorLogger, ErrorHandler] None r w vis =
         run_stack cfg [Routes, ErrorLogger, ErrorHandler] None r w vis"
  using assms
  by (simp add: run_stack.simps(2)[where s=Limiter] run_stack.simps(2)[where s=SpeedLimiter]
      del: run_stack.simps)

lemma run_admission_rejected:
  assumes "mounted (Some ''/api'') (in_url (req_in r))"
    and "hits (limiter_bucket cfg r w) > limiter_max cfg"
  shows "run_stack cfg [Limiter, SpeedLimiter, Routes, ErrorLogger, ErrorHandler] None r w vis =
         (\<lparr>res_status = 429, res_body = limiter_message\<rparr>,
          r\<lparr>req_url := in_mount_url (req_in r) ''/api''\<rparr>,
          w\<lparr>limiter_store := (limiter_store w)(in_ip (req_in r) \<mapsto> limiter_bucket cfg r w)\<rparr>,
          vis @ [Limiter])"
  using assms
  by (simp add: limiter_eq enter_mount_def bucket_url run_stack.simps(2)[where s=Limiter]
      del: run_stack.simps)

lemma run_admission_admitted:
  assumes "mounted (Some ''/api'') (in_url (req_in r))"
    and "\<not> hits (limiter_bucket cfg r w) > limiter_max cfg"
  shows "run_stack cfg [Limiter, SpeedLimiter, Routes, ErrorLogger, ErrorHandler] None r w vis =
         run_stack cfg [Routes, ErrorLogger, ErrorHandler] None
           (r\<lparr>req_delay := req_delay r + speed_delay (hits (speed_bucket r w))\<rparr>)
           (admitted cfg r w) (vis @ [Limiter, SpeedLimiter])"
  using assms
  by (simp add: limiter_eq speedLimiter_eq admitted_def speed_bucket_def enter_mount_def bucket_url
        run_stack.simps(2)[where s=Limiter] run_stack.simps(2)[where s=SpeedLimiter]
      del: run_stack.simps)


text \<open>A request that reaches the dispatch stage has passed every stage before it.\<close>

lemma dispatched_passed:
  assumes "Routes \<in> set (out_visited (serve cfg i w))"
  shows "origin_callback (cfg_variant cfg) (cfg_hostname cfg) (in_stack i) (in_origin i) = Inr True
         \<and> in_method i \<noteq> OPTIONS \<and> in_json_error i = None \<and> in_urlencoded_error i = None
         \<and> (mounted (Some ''/api'') (in_url i) \<longrightarrow>
              \<not> hits (limiter_bucket cfg (ctx_req i) w) > limiter_max cfg)"
proof -
  let ?oc = "origin_callback (cfg_variant cfg) (cfg_hostname cfg) (in_stack i) (in_origin i)"
  have oc: "?oc = Inr True"
  proof (rule ccontr)
    assume "?oc \<noteq> Inr True"
    then have "?oc = Inl (corsError (in_stack i))"
      using origin_callback_cases by blast
    from run_denied[OF this] assms show False by (simp add: serve_def)
  qed
  have m: "in_method i \<noteq> OPTIONS"
  proof
    assume "in_method i = OPTIONS"
    from run_preflight[OF oc this] assms show False by (simp add: serve_def)
  qed
  have j: "in_json_error i = None"
  proof (cases "in_json_error i")
    case (Some e)
    from run_json_error[OF oc m this] assms show ?thesis by (simp add: serve_def)
  qed simp
  have u: "in_urlencoded_error i = None"
  proof (cases "in_urlencoded_error i")
    case (Some e)
    from run_urlencoded_error[OF oc m j this] assms show ?thesis by (simp add: serve_def)
  qed simp
  have "\<not> hits (limiter_bucket cfg (ctx_req i) w) > limiter_max cfg"
    if a: "mounted (Some ''/api'') (in_url i)"
  proof
    assume over: "hits (limiter_bucket cfg (ctx_req i) w) > limiter_max cfg"
    have "mounted (Some ''/api'') (in_url (req_in (ctx_req i)))" using a by (simp add: ctx_req_sel)
    from run_admission_rejected[OF this over] assms show False
      by (simp add: serve_def run_context[OF oc m j u])
  qed
  with oc m j u show ?thesis by simp
qed

text \<open>The walk of a request that has passed the stages before the dispatch.\<close>

lemma run_dispatched:
  assumes "origin_callback (cfg_variant cfg) (cfg_hostname cfg) (in_stack i) (in_origin i) = Inr True"
    and "in_method i \<noteq> OPTIONS" and "in_json_error i = None" and "in_urlencoded_error i = None"
    and "mounted (Some ''/api'') (in_url i) \<longrightarrow>
           \<not> hits (limiter_bucket cfg (ctx_req i) w) > limiter_max cfg"
  shows "run_stack cfg app_stack None (new_req i) w [] =
           (if mounted (Some ''/api'') (in_url i) then
              run_stack cfg [Routes, ErrorLogger, ErrorHandler] None
                (ctx_req i\<lparr>req_delay := speed_delay (hits (speed_bucket (ctx_req i) w))\<rparr>)
                (admitted cfg (ctx_req i) w)
                [Helmet, Compression, Cors, JsonParser, UrlencodedParser, RequestLogger, RequestId,
                 Limiter, SpeedLimiter]
            else
              run_stack cfg [Routes, ErrorLogger, ErrorHandler] None (ctx_req i) w
                [Helmet, Compression, Cors, JsonParser, UrlencodedParser, RequestLogger, RequestId])"
proof (cases "mounted (Some ''/api'') (in_url i)")
  case True
  then have a: "mounted (Some ''/api'') (in_url (req_in (ctx_req i)))"
    by (simp add: ctx_req_sel)
  from assms(5) True have b: "\<not> hits (limiter_bucket cfg (ctx_req i) w) > limiter_max cfg"
    by simp
  show ?thesis
    using True
    by (simp add: run_context[OF assms(1-4)] run_admission_admitted[OF a b] ctx_req_sel
        del: run_stack.simps)
next
  case False
  then have a: "\<not> mounted (Some ''/api'') (in_url (req_in (ctx_req i)))"
    by (simp add: ctx_req_sel)
  show ?thesis
    using False
    by (simp add: run_context[OF assms(1-4)] run_admission_outside[OF a] del: run_stack.simps)
qed

lemma status_error_response: "res_status (error_response cfg e r) = handler_status e"
  by (simp add: error_response_def handler_status_def)

lemma body_requestId_error_response:
  "body_requestId (error_response cfg e r) = map_option JStr (req_id r)"
  by (cases "req_id r")
     (simp_all add: error_response_def body_requestId_def json_obj_def List.map_filter_def)

lemma error_answer_sent:
  assumes "200 \<le> handler_status e" and "handler_status e \<le> 999"
    and "handler_status e \<notin> {204, 205, 304}"
  shows "error_answer cfg e r = error_response cfg e r"
  using assms
  by (simp add: error_answer_def res_send_def status_error_response)

lemma logs_admitted: "logs (admitted cfg r w) = logs w"
  by (simp add: admitted_def)

lemma handler_error_logged:
  assumes raised: "in_route i = Raised e"
    and routes: "Routes \<in> set (out_visited (serve cfg i w))"
    and handler: "ErrorHandler \<in> set (out_visited (serve cfg i w))"
    and status: "200 \<le> handler_status e" "handler_status e \<le> 999"
                "handler_status e \<notin> {204, 205, 304}"
  shows "body_requestId (out_response (serve cfg i w)) = Some (JStr (in_uuid i)) \<and>
         logs (out_world (serve cfg i w)) =
           logs w @
           [ErrorRecord (err_message e) (err_stack e) (in_method i) (in_url i) (Some (in_uuid i)),
            ErrorText (''[Error] ['' @ in_uuid i @ ''] '' @ err_stack e),
            InfoRequest (in_method i) (in_url i) (res_status (out_response (serve cfg i w)))
              (Some (in_uuid i))]"
proof -
  note p = dispatched_passed[OF routes]
  from p have run: "run_stack cfg app_stack None (new_req i) w [] =
           (if mounted (Some ''/api'') (in_url i) then
              run_stack cfg [Routes, ErrorLogger, ErrorHandler] None
                (ctx_req i\<lparr>req_delay := speed_delay (hits (speed_bucket (ctx_req i) w))\<rparr>)
                (admitted cfg (ctx_req i) w)
                [Helmet, Compression, Cors, JsonParser, UrlencodedParser, RequestLogger, RequestId,
                 Limiter, SpeedLimiter]
            else
              run_stack cfg [Routes, ErrorLogger, ErrorHandler] None (ctx_req i) w
                [Helmet, Compression, Cors, JsonParser, UrlencodedParser, RequestLogger, RequestId])"
    by (intro run_dispatched) simp_all
  note sent = error_answer_sent[OF status]
  show ?thesis
  proof (cases "mounted (Some ''/api'') (in_url i)")
    case True
    let ?w = "admitted cfg (ctx_req i) w"
    have miss: "cached cfg i ?w = None"
    proof (cases "cached cfg i ?w")
      case (Some res)
      with handler True show ?thesis
        by (simp add: serve_def run run_routes ctx_req_sel del: run_stack.simps)
    qed simp
    show ?thesis
      using True miss raised
      by (simp add: serve_def run run_routes ctx_req_sel sent body_requestId_error_response
            logs_admitted on_finish_def log_def show_id_def
          del: run_stack.simps)
  next
    case False
    have miss: "cached cfg i w = None"
    proof (cases "cached cfg i w")
      case (Some res)
      with handler False show ?thesis
        by (simp add: serve_def run run_routes ctx_req_sel del: run_stack.simps)
    qed simp
    show ?thesis
      using False miss raised
      by (simp add: serve_def run run_routes ctx_req_sel sent body_requestId_error_response
            on_finish_def log_def show_id_def
          del: run_stack.simps)
  qed
qed

lemma stores_on_finish:
  "limiter_store (on_finish res r w) = limiter_store w"
  "speed_store (on_finish res r w) = speed_store w"
  "redis_isOpen (on_finish res r w) = redis_isOpen w"
  "in_process_store (on_finish res r w) = in_process_store w"
  by (simp_all add: on_finish_def log_def)



lemma serve_rejected:
  assumes "reaches_admission cfg i"
    and "hits (limiter_bucket cfg (ctx_req i) w) > limiter_max cfg"
  shows "out_response (serve cfg i w) = \<lparr>res_status = 429, res_body = limiter_message\<rparr>"
    and "out_visited (serve cfg i w) =
           [Helmet, Compression, Cors, JsonParser, UrlencodedParser, RequestLogger, RequestId, Limiter]"
    and "limiter_store (out_world (serve cfg i w)) =
           (limiter_store w)(in_ip i \<mapsto> limiter_bucket cfg (ctx_req i) w)"
    and "logs (out_world (serve cfg i w)) =
           logs w @ [InfoRequest (in_method i) (in_mount_url i ''/api'') 429 (Some (in_uuid i))]"
proof -
  from assms(1) have ctx: "run_stack cfg app_stack None (new_req i) w [] =
         run_stack cfg [Limiter, SpeedLimiter, Routes, ErrorLogger, ErrorHandler] None (ctx_req i) w
           [Helmet, Compression, Cors, JsonParser, UrlencodedParser, RequestLogger, RequestId]"
    by (simp add: run_context reaches_admission_def)
  from assms(1) have a: "mounted (Some ''/api'') (in_url (req_in (ctx_req i)))"
    by (simp add: ctx_req_sel reaches_admission_def)
  note r = run_admission_rejected[OF a assms(2)]
  show "out_response (serve cfg i w) = \<lparr>res_status = 429, res_body = limiter_message\<rparr>"
    by (simp add: serve_def ctx r del: run_stack.simps)
  show "out_visited (serve cfg i w) =
           [Helmet, Compression, Cors, JsonParser, UrlencodedParser, RequestLogger, RequestId, Limiter]"
    by (simp add: serve_def ctx r del: run_stack.simps)
  show "limiter_store (out_world (serve cfg i w)) =
           (limiter_store w)(in_ip i \<mapsto> limiter_bucket cfg (ctx_req i) w)"
    by (simp add: serve_def ctx r stores_on_finish ctx_req_sel del: run_stack.simps)
  show "logs (out_world (serve cfg i w)) =
           logs w @ [InfoRequest (in_method i) (in_mount_url i ''/api'') 429 (Some (in_uuid i))]"
    by (simp add: serve_def ctx r on_finish_def log_def ctx_req_sel del: run_stack.simps)
qed

lemma run_stack_visits:
  "run_stack cfg ss p r w vis = (res, r', w', vis') \<Longrightarrow> \<exists>vs. vis' = vis @ vs \<and> subseq vs ss"
proof (induction ss arbitrary: p r w vis)
  case Nil
  then show ?case by simp
next
  case (Cons s ss)
  have skip: ?case if "run_stack cfg ss p r w vis = (res, r', w', vis')"
    using Cons.IH[OF that] by auto
  have go: ?case if "run_stack cfg ss q r1 w1 (vis @ [s]) = (res, r', w', vis')" for q r1 w1
    using Cons.IH[OF that] by auto
  have stop: ?case if "vis' = vis @ [s]"
    using that by auto
  show ?case
  proof (cases "mounted (mount_path s) (in_url (req_in r))")
    case False
    with Cons.prems show ?thesis by (intro skip) simp
  next
    case m: True
    show ?thesis
    proof (cases p)
      case None
      show ?thesis
      proof (cases "is_error_middleware s")
        case True
        with Cons.prems m None show ?thesis by (intro skip) simp
      next
        case False
        obtain f r1 w1 where rm: "run_middleware cfg s (enter_mount (mount_path s) r) w = (f, r1, w1)"
          by (cases "run_middleware cfg s (enter_mount (mount_path s) r) w")
        show ?thesis
        proof (cases f)
          case Next
          with Cons.prems m None False rm show ?thesis by (intro go[of None "r1\<lparr>req_url := req_url r\<rparr>" w1]) simp
        next
          case (NextErr e)
          with Cons.prems m None False rm show ?thesis by (intro go[of "Some e" "r1\<lparr>req_url := req_url r\<rparr>" w1]) simp
        next
          case (Done x)
          with Cons.prems m None False rm show ?thesis by (intro stop) simp
        qed
      qed
    next
      case (Some e)
      show ?thesis
      proof (cases "is_error_middleware s")
        case False
        with Cons.prems m Some show ?thesis by (intro skip) simp
      next
        case True
        obtain f r1 w1
          where rm: "run_error_middleware cfg s e (enter_mount (mount_path s) r) w = (f, r1, w1)"
          by (cases "run_error_middleware cfg s e (enter_mount (mount_path s) r) w")
        show ?thesis
        proof (cases f)
          case Next
          with Cons.prems m Some True rm show ?thesis by (intro go[of None "r1\<lparr>req_url := req_url r\<rparr>" w1]) simp
        next
          case (NextErr e')
          with Cons.prems m Some True rm show ?thesis by (intro go[of "Some e'" "r1\<lparr>req_url := req_url r\<rparr>" w1]) simp
        next
          case (Done x)
          with Cons.prems m Some True rm show ?thesis by (intro stop) simp
        qed
      qed
    qed
  qed
qed

lemma serve_visits: "subseq (out_visited (serve cfg i w)) app_stack"
proof -
  obtain res r w' vis where rs: "run_stack cfg app_stack None (new_req i) w [] = (res, r, w', vis)"
    by (cases "run_stack cfg app_stack None (new_req i) w []") auto
  from run_stack_visits[OF rs] have "subseq vis app_stack" by auto
  with rs show ?thesis by (simp add: serve_def)
qed

lemma normal_visits:
  "filter (\<lambda>s. \<not> is_error_middleware s) (out_visited (serve cfg i w)) =
     (if origin_callback (cfg_variant cfg) (cfg_hostname cfg) (in_stack i) (in_origin i) \<noteq> Inr True
      then [Helmet, Compression, Cors]
      else if in_method i = OPTIONS then [Helmet, Compression, Cors]
      else if in_json_error i \<noteq> None then [Helmet, Compression, Cors, JsonParser]
      else if in_urlencoded_error i \<noteq> None
      then [Helmet, Compression, Cors, JsonParser, UrlencodedParser]
      else if mounted (Some ''/api'') (in_url i)
              \<and> limiter_max cfg < hits (limiter_bucket cfg (ctx_req i) w)
      then [Helmet, Compression, Cors, JsonParser, UrlencodedParser, RequestLogger, RequestId,
            Limiter]
      else filter (\<lambda>s. mounted (mount_path s) (in_url i))
             [Helmet, Compression, Cors, JsonParser, UrlencodedParser, RequestLogger, RequestId,
              Limiter, SpeedLimiter, Routes])"
proof -
  let ?oc = "origin_callback (cfg_variant cfg) (cfg_hostname cfg) (in_stack i) (in_origin i)"
  have m: "mounted None (in_url i)" by (simp add: mounted_def)
  consider (denied) "?oc = Inl (corsError (in_stack i))"
    | (preflight) "?oc = Inr True" "in_method i = OPTIONS"
    | (json) e where "?oc = Inr True" "in_method i \<noteq> OPTIONS" "in_json_error i = Some e"
    | (urlencoded) e where "?oc = Inr True" "in_method i \<noteq> OPTIONS" "in_json_error i = None"
        "in_urlencoded_error i = Some e"
    | (rejected) "?oc = Inr True" "in_method i \<noteq> OPTIONS" "in_json_error i = None"
        "in_urlencoded_error i = None" "mounted (Some ''/api'') (in_url i)"
        "limiter_max cfg < hits (limiter_bucket cfg (ctx_req i) w)"
    | (dispatched) "?oc = Inr True" "in_method i \<noteq> OPTIONS" "in_json_error i = None"
        "in_urlencoded_error i = None"
        "mounted (Some ''/api'') (in_url i) \<longrightarrow>
           \<not> limiter_max cfg < hits (limiter_bucket cfg (ctx_req i) w)"
    using origin_callback_cases[of "cfg_variant cfg" "cfg_hostname cfg" "in_stack i" "in_origin i"]
    by (cases "in_json_error i"; cases "in_urlencoded_error i") auto
  then show ?thesis
  proof cases
    case denied
    then show ?thesis by (simp add: serve_def run_denied)
  next
    case preflight
    then show ?thesis by (simp add: serve_def run_preflight)
  next
    case json
    then show ?thesis by (simp add: serve_def run_json_error)
  next
    case urlencoded
    then show ?thesis by (simp add: serve_def run_urlencoded_error)
  next
    case rejected
    then have "reaches_admission cfg i" by (simp add: reaches_admission_def)
    from serve_rejected(2)[OF this rejected(6)] rejected show ?thesis by simp
  next
    case dispatched
    note run = run_dispatched[OF dispatched]
    show ?thesis
    proof (cases "mounted (Some ''/api'') (in_url i)")
      case True
      with dispatched m show ?thesis
        by (simp add: serve_def run run_routes
            split: option.splits route_result.splits del: run_stack.simps)
    next
      case False
      with dispatched m show ?thesis
        by (simp add: serve_def run run_routes
            split: option.splits route_result.splits del: run_stack.simps)
    qed
  qed
qed










lemmas eval_defs = serve_def stack_defs cors_def origin_callback_def allowedOrigins_def
  limiter_def speedLimiter_def Let_def pathname_def lower_def limiter_bucket_def speed_bucket_def
  hit_def limiter_max_def limiter_windowMs_def or_default_def log_def on_finish_def
  error_response_def json_obj_def List.map_filter_def status_or_500_def speed_delay_def
  speed_delayAfter_def speed_delayMs_def speed_windowMs_def show_id_def
  routes_def route_layer_def cacheable_def cache_get_def cache_set_def cache_backend_def
  in_process_get_def cache_ttl_def res_send_def finalhandler_def
  sample_cfg_def tight_cfg_def sample_request_def foreign_request_def empty_world_def

section \<open>Properties of the error responses\<close>

text \<open>
  The claim C2 as it is written fails: the request of an origin that is not allowed is
  answered by the terminal error handler with status 500 and the label
  \<^verbatim>\<open>Internal Server Error\<close>. The error the origin check creates has the name
  \<^verbatim>\<open>Error\<close> and no status, and the handler has no case for it.
\<close>

theorem denied_origin_gets_500:
  "origin_callback (cfg_variant sample_cfg) (cfg_hostname sample_cfg) (in_stack foreign_request)
     (in_origin foreign_request) = Inl (corsError ''Error: Not allowed by CORS'')
   \<and> res_status (out_response (serve sample_cfg foreign_request empty_world)) = 500
   \<and> body_error (out_response (serve sample_cfg foreign_request empty_world))
       = Some (JStr ''Internal Server Error'')"
  by (simp add: eval_defs body_error_def corsError_def)

text \<open>
  Claim C2, amended. Every request whose origin is denied is answered with status 500 and
  the label \<^verbatim>\<open>Internal Server Error\<close>; the message is \<^verbatim>\<open>Not allowed by CORS\<close>, or
  \<^verbatim>\<open>Something went wrong\<close> in production mode. Only the security headers, the
  compression and the origin check have run before the two error middleware.
\<close>

theorem denied_origin_response:
  assumes "origin_callback (cfg_variant cfg) (cfg_hostname cfg) (in_stack i) (in_origin i) = Inl e"
  shows "out_response (serve cfg i w) =
           \<lparr>res_status = 500,
            res_body = [(''error'', JStr ''Internal Server Error''),
                        (''message'', JStr (if cfg_env cfg ''NODE_ENV'' = Some ''production''
                                            then ''Something went wrong''
                                            else ''Not allowed by CORS''))]\<rparr>
         \<and> out_visited (serve cfg i w) = [Helmet, Compression, Cors, ErrorLogger, ErrorHandler]"
proof -
  have "e = corsError (in_stack i)"
    using assms origin_callback_cases[of "cfg_variant cfg" "cfg_hostname cfg" "in_stack i" "in_origin i"]
    by simp
  then show ?thesis
    by (simp add: serve_def run_denied[OF assms] error_answer_def res_send_def
          error_response_def corsError_def new_req_sel status_or_500_def json_obj_def
          List.map_filter_def)
qed

theorem denied_origin_response_witness:
  "out_response (serve sample_cfg foreign_request empty_world) =
     \<lparr>res_status = 500,
      res_body = [(''error'', JStr ''Internal Server Error''),
                  (''message'', JStr ''Not allowed by CORS'')]\<rparr>
   \<and> out_visited (serve sample_cfg foreign_request empty_world)
       = [Helmet, Compression, Cors, ErrorLogger, ErrorHandler]"
proof -
  have h: "origin_callback (cfg_variant sample_cfg) (cfg_hostname sample_cfg)
             (in_stack foreign_request) (in_origin foreign_request)
           = Inl (corsError ''Error: Not allowed by CORS'')"
    by (simp add: sample_cfg_def foreign_request_def sample_request_def origin_callback_def
          allowedOrigins_def)
  show ?thesis
    using denied_origin_response[OF h, of empty_world] by (simp add: sample_cfg_def)
qed

text \<open>
  The claim C1 as it is written fails for a rate-limit rejection: the ceiling stage sends
  its configured message, which has no request identifier, although the request has been
  given one and the record of the request in the log carries it. Here the ceiling is 1
  and the same client sends two requests.
\<close>

theorem rate_limit_body_without_requestId:
  "res_status (out_response (serve tight_cfg sample_request
       (out_world (serve tight_cfg sample_request empty_world)))) = 429
   \<and> body_requestId (out_response (serve tight_cfg sample_request
       (out_world (serve tight_cfg sample_request empty_world)))) = None
   \<and> last (logs (out_world (serve tight_cfg sample_request
       (out_world (serve tight_cfg sample_request empty_world)))))
     = InfoRequest GET ''/products?page=2'' 429 (Some ''6f1c2d1e-0000-4000-8000-000000000001'')"
  by (simp add: eval_defs body_requestId_def limiter_message_def)

text \<open>
  Claim C1, amended. Take a request, other than a \<^verbatim>\<open>HEAD\<close> request, whose error is
  raised by the route layer, that is after the request has been given its identifier,
  and is answered by the terminal handler with a status that is sent with a body (the
  status chosen by the handler lies in 200..999 and is not 204, 205 or 304). The body of
  the error response contains the identifier generated for the request, which is
  non-empty when the generator returns a non-empty string, and the same identifier is in
  the three log records of the request: the record of the error logger, the line of the
  terminal handler, and the record written when the response is finished. The response of
  a rate-limit rejection has status 429 and contains no identifier, while the record
  written when it is finished carries the identifier of the request.
\<close>

theorem handler_error_carries_requestId:
  "(in_route i = Raised e
      \<and> in_method i \<noteq> HEAD
      \<and> Routes \<in> set (out_visited (serve cfg i w))
      \<and> ErrorHandler \<in> set (out_visited (serve cfg i w))
      \<and> 200 \<le> handler_status e \<and> handler_status e \<le> 999
      \<and> handler_status e \<notin> {204, 205, 304}
      \<and> in_uuid i \<noteq> []
    \<longrightarrow> (\<exists>rid. rid \<noteq> [] \<and>
           body_requestId (out_response (serve cfg i w)) = Some (JStr rid) \<and>
           logs (out_world (serve cfg i w)) =
             logs w @
             [ErrorRecord (err_message e) (err_stack e) (in_method i) (in_url i) (Some rid),
              ErrorText (''[Error] ['' @ rid @ ''] '' @ err_stack e),
              InfoRequest (in_method i) (in_url i) (res_status (out_response (serve cfg i w)))
                (Some rid)]))
   \<and> (reaches_admission cfg j \<and> limiter_max cfg < hits (limiter_bucket cfg (ctx_req j) w')
    \<longrightarrow> res_status (out_response (serve cfg j w')) = 429
        \<and> body_requestId (out_response (serve cfg j w')) = None
        \<and> logs (out_world (serve cfg j w')) =
            logs w' @ [InfoRequest (in_method j) (in_mount_url j ''/api'') 429 (Some (in_uuid j))])"
proof (intro conjI impI)
  assume a: "in_route i = Raised e
      \<and> in_method i \<noteq> HEAD
      \<and> Routes \<in> set (out_visited (serve cfg i w))
      \<and> ErrorHandler \<in> set (out_visited (serve cfg i w))
      \<and> 200 \<le> handler_status e \<and> handler_status e \<le> 999
      \<and> handler_status e \<notin> {204, 205, 304}
      \<and> in_uuid i \<noteq> []"
  then have "body_requestId (out_response (serve cfg i w)) = Some (JStr (in_uuid i)) \<and>
         logs (out_world (serve cfg i w)) =
           logs w @
           [ErrorRecord (err_message e) (err_stack e) (in_method i) (in_url i) (Some (in_uuid i)),
            ErrorText (''[Error] ['' @ in_uuid i @ ''] '' @ err_stack e),
            InfoRequest (in_method i) (in_url i) (res_status (out_response (serve cfg i w)))
              (Some (in_uuid i))]"
    by (intro handler_error_logged) simp_all
  with a show "\<exists>rid. rid \<noteq> [] \<and>
           body_requestId (out_response (serve cfg i w)) = Some (JStr rid) \<and>
           logs (out_world (serve cfg i w)) =
             logs w @
             [ErrorRecord (err_message e) (err_stack e) (in_method i) (in_url i) (Some rid),
              ErrorText (''[Error] ['' @ rid @ ''] '' @ err_stack e),
              InfoRequest (in_method i) (in_url i) (res_status (out_response (serve cfg i w)))
                (Some rid)]"
    by blast
next
  assume b: "reaches_admission cfg j \<and> limiter_max cfg < hits (limiter_bucket cfg (ctx_req j) w')"
  then have g: "reaches_admission cfg j"
    and over: "hits (limiter_bucket cfg (ctx_req j) w') > limiter_max cfg"
    by simp_all
  note r = serve_rejected[OF g over]
  show "res_status (out_response (serve cfg j w')) = 429"
    by (simp add: r(1))
  show "body_requestId (out_response (serve cfg j w')) = None"
    by (simp add: r(1) body_requestId_def limiter_message_def)
  show "logs (out_world (serve cfg j w')) =
            logs w' @ [InfoRequest (in_method j) (in_mount_url j ''/api'') 429 (Some (in_uuid j))]"
    by (rule r(4))
qed

theorem handler_error_carries_requestId_witness:
  "(\<exists>rid. rid \<noteq> [] \<and>
     body_requestId (out_response (serve sample_cfg sample_request empty_world)) = Some (JStr rid) \<and>
     logs (out_world (serve sample_cfg sample_request empty_world)) =
       [ErrorRecord ''price is required'' ''ValidationError: price is required'' GET
          ''/api/products?page=2'' (Some rid),
        ErrorText (''[Error] ['' @ rid @ ''] ValidationError: price is required''),
        InfoRequest GET ''/api/products?page=2'' 400 (Some rid)])
   \<and> res_status (out_response (serve tight_cfg sample_request
         (out_world (serve tight_cfg sample_request empty_world)))) = 429
   \<and> body_requestId (out_response (serve tight_cfg sample_request
         (out_world (serve tight_cfg sample_request empty_world)))) = None"
proof -
  let ?e = "\<lparr>err_name = ''ValidationError'', err_message = ''price is required'',
             err_status = None, err_stack = ''ValidationError: price is required''\<rparr>"
  let ?w1 = "out_world (serve tight_cfg sample_request empty_world)"
  have h: "in_route sample_request = Raised ?e
      \<and> in_method sample_request \<noteq> HEAD
      \<and> Routes \<in> set (out_visited (serve sample_cfg sample_request empty_world))
      \<and> ErrorHandler \<in> set (out_visited (serve sample_cfg sample_request empty_world))
      \<and> 200 \<le> handler_status ?e \<and> handler_status ?e \<le> 999
      \<and> handler_status ?e \<notin> {204, 205, 304}
      \<and> in_uuid sample_request \<noteq> []"
    by (simp add: eval_defs handler_status_def)
  have g: "reaches_admission tight_cfg sample_request
             \<and> limiter_max tight_cfg < hits (limiter_bucket tight_cfg (ctx_req sample_request) ?w1)"
    by (simp add: eval_defs reaches_admission_def ctx_req_def)
  have s: "res_status (out_response (serve sample_cfg sample_request empty_world)) = 400"
    by (simp add: eval_defs)
  have sel: "in_method sample_request = GET" "in_url sample_request = ''/api/products?page=2''"
    "logs empty_world = []"
    by (simp_all add: sample_request_def empty_world_def)
  note th = handler_error_carries_requestId
    [where i = sample_request and e = ?e and cfg = sample_cfg and w = empty_world]
  note th' = handler_error_carries_requestId
    [where cfg = tight_cfg and j = sample_request and w' = ?w1]
  from th[THEN conjunct1, THEN mp, OF h] have a: "\<exists>rid. rid \<noteq> [] \<and>
     body_requestId (out_response (serve sample_cfg sample_request empty_world)) = Some (JStr rid) \<and>
     logs (out_world (serve sample_cfg sample_request empty_world)) =
       [ErrorRecord ''price is required'' ''ValidationError: price is required'' GET
          ''/api/products?page=2'' (Some rid),
        ErrorText (''[Error] ['' @ rid @ ''] ValidationError: price is required''),
        InfoRequest GET ''/api/products?page=2'' 400 (Some rid)]"
    by (simp add: s sel)
  from th'[THEN conjunct2, THEN mp, OF g]
  have b: "res_status (out_response (serve tight_cfg sample_request ?w1)) = 429
     \<and> body_requestId (out_response (serve tight_cfg sample_request ?w1)) = None"
    by simp
  from a b show ?thesis by blast
qed

section \<open>Properties of the order of the stages\<close>

text \<open>
  The claim C5 as it is written fails: the security headers and the compression are
  registered, and run, before the origin check.
\<close>

theorem stage_order_differs_from_spec:
  "remdups_adj (map kind_of (out_visited (serve sample_cfg
       (sample_request\<lparr>in_route := Responded \<lparr>res_status = 200, res_body = []\<rparr>\<rparr>) empty_world)))
     = [SecurityHeaders, CompressionStage, OriginCheck, BodyParsing, ContextAssignment,
        AdmissionControl, Dispatch]
   \<and> remdups_adj (map kind_of (out_visited (serve sample_cfg
       (sample_request\<lparr>in_route := Responded \<lparr>res_status = 200, res_body = []\<rparr>\<rparr>) empty_world)))
     \<noteq> spec_order"
  by (simp add: eval_defs spec_order_def)

text \<open>
  Claim C5, amended. For every request the middleware that run do so in the order of
  their registration: security headers, compression, origin check, body parsing (JSON,
  then URL-encoded), request logging and context assignment, admission control (ceiling,
  then delay), dispatch, and the error middleware last. A request that a stage answers
  or fails does not reach the later stages: a request whose origin is denied and a
  preflight request stop at the origin check, a request whose body a parser rejects stops
  at that parser, and a request over the ceiling stops at the ceiling stage. Every other
  request passes every stage that is mounted for its path, none skipped, and reaches the
  dispatch; the admission control is mounted under \<^verbatim>\<open>/api\<close> only.
\<close>

theorem stage_order:
  "subseq (out_visited (serve cfg i w)) app_stack
   \<and> filter (\<lambda>s. \<not> is_error_middleware s) (out_visited (serve cfg i w)) =
     (if origin_callback (cfg_variant cfg) (cfg_hostname cfg) (in_stack i) (in_origin i) \<noteq> Inr True
      then [Helmet, Compression, Cors]
      else if in_method i = OPTIONS then [Helmet, Compression, Cors]
      else if in_json_error i \<noteq> None then [Helmet, Compression, Cors, JsonParser]
      else if in_urlencoded_error i \<noteq> None
      then [Helmet, Compression, Cors, JsonParser, UrlencodedParser]
      else if mounted (Some ''/api'') (in_url i)
              \<and> limiter_max cfg < hits (limiter_bucket cfg (ctx_req i) w)
      then [Helmet, Compression, Cors, JsonParser, UrlencodedParser, RequestLogger, RequestId,
            Limiter]
      else filter (\<lambda>s. mounted (mount_path s) (in_url i))
             [Helmet, Compression, Cors, JsonParser, UrlencodedParser, RequestLogger, RequestId,
              Limiter, SpeedLimiter, Routes])"
  using serve_visits[of cfg i w] normal_visits[of cfg i w] by (rule conjI)

theorem stage_order_witness:
  "filter (\<lambda>s. \<not> is_error_middleware s)
      (out_visited (serve sample_cfg sample_request empty_world)) =
     [Helmet, Compression, Cors, JsonParser, UrlencodedParser, RequestLogger, RequestId,
      Limiter, SpeedLimiter, Routes]
   \<and> filter (\<lambda>s. \<not> is_error_middleware s)
      (out_visited (serve sample_cfg foreign_request empty_world)) = [Helmet, Compression, Cors]
   \<and> filter (\<lambda>s. \<not> is_error_middleware s)
      (out_visited (serve tight_cfg sample_request
         (out_world (serve tight_cfg sample_request empty_world)))) =
     [Helmet, Compression, Cors, JsonParser, UrlencodedParser, RequestLogger, RequestId, Limiter]"
proof -
  let ?w1 = "out_world (serve tight_cfg sample_request empty_world)"
  have a: "origin_callback (cfg_variant sample_cfg) (cfg_hostname sample_cfg)
             (in_stack sample_request) (in_origin sample_request) = Inr True"
    "in_method sample_request \<noteq> OPTIONS" "in_json_error sample_request = None"
    "in_urlencoded_error sample_request = None"
    "mounted (Some ''/api'') (in_url sample_request)" "mounted None (in_url sample_request)"
    "\<not> limiter_max sample_cfg < hits (limiter_bucket sample_cfg (ctx_req sample_request) empty_world)"
    by (simp_all add: eval_defs ctx_req_def)
  have b: "origin_callback (cfg_variant sample_cfg) (cfg_hostname sample_cfg)
             (in_stack foreign_request) (in_origin foreign_request) \<noteq> Inr True"
    by (simp add: eval_defs)
  have c: "origin_callback (cfg_variant tight_cfg) (cfg_hostname tight_cfg)
             (in_stack sample_request) (in_origin sample_request) = Inr True"
    "limiter_max tight_cfg < hits (limiter_bucket tight_cfg (ctx_req sample_request) ?w1)"
    by (simp_all add: eval_defs ctx_req_def)
  show ?thesis
    using stage_order[of sample_cfg sample_request empty_world]
      stage_order[of sample_cfg foreign_request empty_world]
      stage_order[of tight_cfg sample_request ?w1]
    by (simp add: a b c)
qed

section \<open>Properties of the admission control\<close>







section \<open>Properties of the shutdown\<close>

lemmas shutdown_defs = step_def gracefulShutdown_def settle_def close_store_def emit_def
  process_exit_def Let_def

text \<open>
  Claim C6. When the shutdown is triggered with the cache enabled, its client present and
  the store connection not in state 0, the cache connection is closed before the store
  connection; whether closing the cache connection succeeds or fails, the outcome is
  logged (a failure as a warning that is ignored) and the store connection is closed
  next; the process exits with status 0 when closing the store connection succeeds and
  with status 1, after logging the error, when it fails.
\<close>

theorem shutdown_sequence:
  assumes "p_env p ''USE_REDIS'' = Some ''true''" and "p_redisClient p"
    and "p_readyState p \<noteq> 0" and "p_tasks p = []" and "p_exit p = None"
  shows "p_trace (run [Signal, Settle 0 quit, Settle 0 closing] p) =
           p_trace p @
           [Logged (Info ''Received shutdown signal, starting graceful shutdown...''),
            Called RedisQuit,
            Logged (case quit of
                      None \<Rightarrow> Info ''Redis connection closed''
                    | Some e \<Rightarrow> WarnWith ''Redis quit error (ignored):'' e),
            Called MongoClose,
            Logged (case closing of
                      None \<Rightarrow> Info ''MongoDB connection closed''
                    | Some e \<Rightarrow> ErrorWith ''Error during shutdown:'' e),
            Exited (case closing of None \<Rightarrow> 0 | Some e \<Rightarrow> 1)]
         \<and> p_exit (run [Signal, Settle 0 quit, Settle 0 closing] p)
             = Some (case closing of None \<Rightarrow> 0 | Some e \<Rightarrow> 1)"
  using assms by (cases quit; cases closing) (simp_all add: shutdown_defs)

theorem shutdown_sequence_witness:
  "p_trace (run [Signal, Settle 0 (Some sample_failure), Settle 0 None] sample_process) =
     [Logged (Info ''Received shutdown signal, starting graceful shutdown...''),
      Called RedisQuit,
      Logged (WarnWith ''Redis quit error (ignored):'' sample_failure),
      Called MongoClose,
      Logged (Info ''MongoDB connection closed''),
      Exited 0]
   \<and> p_exit (run [Signal, Settle 0 (Some sample_failure), Settle 0 None] sample_process) = Some 0"
proof -
  have h: "p_env sample_process ''USE_REDIS'' = Some ''true''" "p_redisClient sample_process"
    "p_readyState sample_process \<noteq> 0" "p_tasks sample_process = []" "p_exit sample_process = None"
    by (simp_all add: sample_process_def)
  have t: "p_trace sample_process = []" by (simp add: sample_process_def)
  show ?thesis
    using shutdown_sequence[OF h, of "Some sample_failure" None] by (simp add: t)
qed

text \<open>
  The claim C7 as it is written fails: \<^verbatim>\<open>gracefulShutdown\<close> has no guard against
  re-entry. A second signal while the first invocation awaits the cache client starts a
  second invocation, which logs the start again and calls \<^verbatim>\<open>quit\<close> again; when both
  calls have settled, \<^verbatim>\<open>close\<close> has been called twice on the store connection.
\<close>

theorem second_signal_reruns_shutdown:
  "p_trace (run [Signal, Signal, Settle 0 None, Settle 1 None] sample_process) =
     [Logged (Info ''Received shutdown signal, starting graceful shutdown...''),
      Called RedisQuit,
      Logged (Info ''Received shutdown signal, starting graceful shutdown...''),
      Called RedisQuit,
      Logged (Info ''Redis connection closed''),
      Called MongoClose,
      Logged (Info ''Redis connection closed''),
      Called MongoClose]
   \<and> run [Signal, Signal] sample_process \<noteq> run [Signal] sample_process"
  by (simp add: shutdown_defs sample_process_def)

text \<open>
  Claim C7, amended. Every termination signal that arrives before the process has exited
  starts a new invocation of the shutdown routine, whether or not one is in progress: the
  start of the shutdown is logged again and the first close call is issued again, on the
  cache client when the cache is enabled, otherwise on the store connection when it is
  not in state 0; only with the cache disabled and the store connection in state 0 does
  the invocation exit at once with status 0.
\<close>

theorem signal_starts_new_run:
  assumes "p_exit p = None"
  shows "p_trace (step Signal p) =
           p_trace p @
           Logged (Info ''Received shutdown signal, starting graceful shutdown...'') #
           (if p_env p ''USE_REDIS'' = Some ''true'' \<and> p_redisClient p then [Called RedisQuit]
            else if p_readyState p \<noteq> 0 then [Called MongoClose]
            else [Exited 0])
         \<and> length (p_tasks (step Signal p)) = length (p_tasks p) + 1"
  using assms by (simp add: shutdown_defs)

theorem signal_starts_new_run_witness:
  "p_trace (step Signal (step Signal sample_process)) =
     p_trace (step Signal sample_process) @
     [Logged (Info ''Received shutdown signal, starting graceful shutdown...''), Called RedisQuit]
   \<and> length (p_tasks (step Signal (step Signal sample_process))) = 2"
proof -
  have h: "p_exit (step Signal sample_process) = None"
    by (simp add: shutdown_defs sample_process_def)
  have e: "p_env (step Signal sample_process) ''USE_REDIS'' = Some ''true''"
    "p_redisClient (step Signal sample_process)"
    "length (p_tasks (step Signal sample_process)) = 1"
    by (simp_all add: shutdown_defs sample_process_def)
  show ?thesis
    using signal_starts_new_run[OF h] by (simp add: e)
qed

section \<open>Properties of the cache connection at start\<close>








end
